theory Spec2Isabelle
  imports Complex_Main
begin

section \<open>A movie catalog service: data model\<close>

text \<open>
  The embedding follows \<^verbatim>\<open>src/routes/movies.py\<close> (the five request handlers) and
  \<^verbatim>\<open>src/schemas/movies.py\<close> (the request and response schemas).

  Conventions.
  \<^item> A Python \<^verbatim>\<open>int\<close> is an \<open>int\<close>. A \<^verbatim>\<open>datetime.date\<close> is its proleptic
    ordinal (\<^verbatim>\<open>date.toordinal()\<close>), an \<open>int\<close>: dates are only compared and shifted by
    \<^verbatim>\<open>timedelta(days=365)\<close>. \<^verbatim>\<open>date.today()\<close> is the parameter \<open>today\<close>.
  \<^item> A \<^verbatim>\<open>float\<close> is a \<open>real\<close>: scores, budgets and revenues are only compared with
    the constants 0 and 100, which is exact on finite floats (NaN and the infinities are
    left out).
  \<^item> A \<^verbatim>\<open>str\<close> is a \<open>string\<close> of ASCII characters, so that its length is the
    number of code points pydantic counts and \<^verbatim>\<open>str.upper\<close> maps \<open>a\<close>..\<open>z\<close> to
    \<open>A\<close>..\<open>Z\<close> and nothing else.
  \<^item> \<^verbatim>\<open>MovieStatusEnum\<close> is declared in \<^verbatim>\<open>database.models\<close>, which is not among
    the sources: it is the type parameter \<open>'st\<close>.
  \<^item> Record fields carry a prefix, since field names are global: \<open>m_\<close> for
    \<^verbatim>\<open>MovieModel\<close>, \<open>c_\<close> for \<^verbatim>\<open>CountryModel\<close>, \<open>n_\<close> for the three lookup
    models that have only an id and a name, \<open>db_\<close> for the tables.
\<close>

type_synonym pydate = int

text \<open>
  What a handler can end with other than its response: the \<^verbatim>\<open>HTTPException\<close>s it raises
  (404 with its detail; 409, whose detail names the offending name and date), the 422 that
  the framework answers when request validation fails, and an exception nobody handles
  (the framework answers 500).
\<close>

datatype pyexn = TypeError | AttributeError | MultipleResultsFound | ResponseValidationError

datatype error =
    NotFound string
  | Conflict string pydate
  | ValidationError
  | Unhandled pyexn

text \<open>
  The rows. The scalar attributes of a movie are optional values: the update handler
  assigns whatever the payload holds, \<^verbatim>\<open>None\<close> included. The relations of a movie are
  the related objects themselves, as on the ORM object; lookup rows are never changed or
  deleted by any handler, so the copy cannot go stale.
\<close>

record CountryModel =
  c_id :: int
  c_code :: string
  c_name :: "string option"

record NamedModel =
  n_id :: int
  n_name :: string

type_synonym GenreModel = NamedModel
type_synonym ActorModel = NamedModel
type_synonym LanguageModel = NamedModel

record 'st MovieModel =
  m_id :: int
  m_name :: "string option"
  m_date :: "pydate option"
  m_score :: "real option"
  m_overview :: "string option"
  m_status :: "'st option"
  m_budget :: "real option"
  m_revenue :: "real option"
  m_country :: CountryModel
  m_genres :: "GenreModel list"
  m_actors :: "ActorModel list"
  m_languages :: "LanguageModel list"

text \<open>
  Modelled from the spec: the persistence layer (\<^verbatim>\<open>database.get_db\<close>,
  \<^verbatim>\<open>database.models\<close> and the ORM session behind them) is not among the sources. The
  spec calls it an external collaborator that stores Movie, Country, Genre, Actor and
  Language entities: a session is the five tables, each a list of rows in insertion
  order. A \<^verbatim>\<open>select ... where\<close> keeps the rows that satisfy the condition, \<^verbatim>\<open>add\<close>
  with \<^verbatim>\<open>flush\<close> or \<^verbatim>\<open>commit\<close> appends a row under a fresh primary key,
  \<^verbatim>\<open>delete\<close> removes the rows with the primary key, a commit after \<^verbatim>\<open>setattr\<close>
  replaces the row with that key. A request that ends with an exception before its commit
  leaves the tables as they were. The store itself enforces no constraint: what the spec's
  data model requires of a state is a hypothesis of the theorems that need it.
\<close>

record 'st database =
  db_movies :: "'st MovieModel list"
  db_countries :: "CountryModel list"
  db_genres :: "GenreModel list"
  db_actors :: "ActorModel list"
  db_languages :: "LanguageModel list"

text \<open>\<^verbatim>\<open>result.scalar_one_or_none()\<close>: the row, \<^verbatim>\<open>None\<close>, or an exception for several.\<close>

definition scalar_one_or_none :: "'a list \<Rightarrow> error + 'a option" where
  "scalar_one_or_none rows =
     (case rows of
        [] \<Rightarrow> Inr None
      | [r] \<Rightarrow> Inr (Some r)
      | _ \<Rightarrow> Inl (Unhandled MultipleResultsFound))"

text \<open>The primary key a new row gets: one more than the largest key of the table.\<close>

definition next_id :: "int list \<Rightarrow> int" where
  "next_id ids = fold max ids 0 + 1"

section \<open>Response schemas\<close>

record MovieListItemSchema =
  li_id :: int
  li_name :: string
  li_date :: pydate
  li_score :: real
  li_overview :: string

record MovieListResponseSchema =
  r_movies :: "MovieListItemSchema list"
  r_prev_page :: "string option"
  r_next_page :: "string option"
  r_total_pages :: int
  r_total_items :: int

text \<open>
  \<^verbatim>\<open>MovieListItemSchema(id=movie.id, name=movie.name, ...)\<close>: every field is required
  and not optional, and \<^verbatim>\<open>score\<close> is declared \<^verbatim>\<open>Field(ge=0, le=100)\<close>. A row that
  does not fit makes the constructor raise inside the handler.
\<close>

definition MovieListItemSchema_init :: "'st MovieModel \<Rightarrow> error + MovieListItemSchema" where
  "MovieListItemSchema_init movie =
     (case (m_name movie, m_date movie, m_score movie, m_overview movie) of
        (Some n, Some d, Some s, Some ov) \<Rightarrow>
          if 0 \<le> s \<and> s \<le> 100
          then Inr \<lparr>li_id = m_id movie, li_name = n, li_date = d, li_score = s, li_overview = ov\<rparr>
          else Inl (Unhandled ResponseValidationError)
      | _ \<Rightarrow> Inl (Unhandled ResponseValidationError))"

text \<open>The list comprehension over the fetched rows: the first failing row ends it.\<close>

fun movies_data_of :: "'st MovieModel list \<Rightarrow> error + MovieListItemSchema list" where
  "movies_data_of [] = Inr []"
| "movies_data_of (movie # rest) =
     (case MovieListItemSchema_init movie of
        Inl e \<Rightarrow> Inl e
      | Inr item \<Rightarrow>
          (case movies_data_of rest of
             Inl e \<Rightarrow> Inl e
           | Inr items \<Rightarrow> Inr (item # items)))"

section \<open>The list handler\<close>

text \<open>Python's \<^verbatim>\<open>str\<close> of an integer, used by the f-strings of the page links.\<close>

definition digit :: "nat \<Rightarrow> char" where
  "digit d = ''0123456789'' ! d"

fun str_nat :: "nat \<Rightarrow> string" where
  "str_nat n = (if n < 10 then [digit n] else str_nat (n div 10) @ [digit (n mod 10)])"

declare str_nat.simps [simp del]

definition str_int :: "int \<Rightarrow> string" where
  "str_int i = (if i < 0 then CHR ''-'' # str_nat (nat (- i)) else str_nat (nat i))"

definition base_url :: string where
  "base_url = ''/theater''"

definition page_link :: "int \<Rightarrow> int \<Rightarrow> string" where
  "page_link n per_page =
     base_url @ ''/movies/?page='' @ str_int n @ ''&per_page='' @ str_int per_page"

text \<open>\<^verbatim>\<open>select(MovieModel).order_by(desc(MovieModel.id))\<close>.\<close>

definition order_by_desc_id :: "'st MovieModel list \<Rightarrow> 'st MovieModel list" where
  "order_by_desc_id rows = sort_key (\<lambda>movie. - m_id movie) rows"

text \<open>
  \<^verbatim>\<open>get_movies_list\<close>. The bounds \<^verbatim>\<open>Query(1, ge=1)\<close> and \<^verbatim>\<open>Query(10, ge=1, le=20)\<close>
  are checked by the framework before the body runs. \<^verbatim>\<open>//\<close> is floor division, which
  is \<open>div\<close> on \<open>int\<close>; the divisor is at least 1 here.
\<close>

definition get_movies_list :: "'st database \<Rightarrow> int \<Rightarrow> int \<Rightarrow> error + MovieListResponseSchema" where
  "get_movies_list db page per_page =
     (if page < 1 \<or> per_page < 1 \<or> 20 < per_page then Inl ValidationError
      else
        let total_items = int (length (db_movies db));
            total_pages = (total_items + per_page - 1) div per_page
        in
          if total_items = 0 then Inl (NotFound ''No movies found.'')
          else if page > total_pages then Inl (NotFound ''Page out of range'')
          else
            let movies = take (nat per_page)
                           (drop (nat (per_page * (page - 1)))
                              (order_by_desc_id (db_movies db)))
            in
              case movies_data_of movies of
                Inl e \<Rightarrow> Inl e
              | Inr movies_data \<Rightarrow>
                  Inr \<lparr>r_movies = movies_data,
                       r_prev_page = (if page > 1 then Some (page_link (page - 1) per_page) else None),
                       r_next_page =
                         (if page < total_pages then Some (page_link (page + 1) per_page) else None),
                       r_total_pages = total_pages,
                       r_total_items = total_items\<rparr>)"

section \<open>The detail handler\<close>

record CountrySchema =
  cs_id :: int
  cs_name :: "string option"
  cs_code :: string

record NamedSchema =
  ns_id :: int
  ns_name :: string

type_synonym GenreSchema = NamedSchema
type_synonym ActorSchema = NamedSchema
type_synonym LanguageSchema = NamedSchema

text \<open>\<^verbatim>\<open>MovieDetailSchema(MovieBase)\<close>: the fields of \<^verbatim>\<open>MovieBase\<close>, then its own.\<close>

record 'st MovieDetailSchema =
  d_name :: string
  d_date :: pydate
  d_score :: real
  d_overview :: string
  d_status :: 'st
  d_budget :: real
  d_revenue :: real
  d_id :: int
  d_country :: CountrySchema
  d_languages :: "LanguageSchema list"
  d_genres :: "GenreSchema list"
  d_actors :: "ActorSchema list"

definition CountrySchema_of :: "CountryModel \<Rightarrow> CountrySchema" where
  "CountrySchema_of c = \<lparr>cs_id = c_id c, cs_name = c_name c, cs_code = c_code c\<rparr>"

definition NamedSchema_of :: "NamedModel \<Rightarrow> NamedSchema" where
  "NamedSchema_of g = \<lparr>ns_id = n_id g, ns_name = n_name g\<rparr>"

text \<open>
  \<^verbatim>\<open>MovieDetailSchema.model_validate(movie)\<close> reads the attributes of the ORM object
  (\<^verbatim>\<open>from_attributes\<close>). No field of \<^verbatim>\<open>MovieBase\<close> is optional, and \<^verbatim>\<open>score\<close>,
  \<^verbatim>\<open>budget\<close> and \<^verbatim>\<open>revenue\<close> carry the bounds \<^verbatim>\<open>ge=0, le=100\<close>, \<^verbatim>\<open>ge=0\<close> and
  \<^verbatim>\<open>ge=0\<close>. The call is made inside the handler, so a row that does not fit ends the
  request with an exception.
\<close>

definition MovieDetailSchema_model_validate :: "'st MovieModel \<Rightarrow> error + 'st MovieDetailSchema" where
  "MovieDetailSchema_model_validate movie =
     (case (m_name movie, m_date movie, m_score movie, m_overview movie) of
        (Some n, Some d, Some s, Some ov) \<Rightarrow>
          (case (m_status movie, m_budget movie, m_revenue movie) of
             (Some st, Some b, Some rv) \<Rightarrow>
               if 0 \<le> s \<and> s \<le> 100 \<and> 0 \<le> b \<and> 0 \<le> rv
               then Inr \<lparr>d_name = n, d_date = d, d_score = s, d_overview = ov, d_status = st,
                         d_budget = b, d_revenue = rv, d_id = m_id movie,
                         d_country = CountrySchema_of (m_country movie),
                         d_languages = map NamedSchema_of (m_languages movie),
                         d_genres = map NamedSchema_of (m_genres movie),
                         d_actors = map NamedSchema_of (m_actors movie)\<rparr>
               else Inl (Unhandled ResponseValidationError)
           | _ \<Rightarrow> Inl (Unhandled ResponseValidationError))
      | _ \<Rightarrow> Inl (Unhandled ResponseValidationError))"

definition not_found_detail :: string where
  "not_found_detail = ''Movie with the given ID was not found.''"

text \<open>\<^verbatim>\<open>select(MovieModel).where(MovieModel.id == movie_id)\<close>.\<close>

definition select_movie_by_id :: "int \<Rightarrow> 'st database \<Rightarrow> 'st MovieModel list" where
  "select_movie_by_id movie_id db = filter (\<lambda>m. m_id m = movie_id) (db_movies db)"

definition get_movie :: "int \<Rightarrow> 'st database \<Rightarrow> error + 'st MovieDetailSchema" where
  "get_movie movie_id db =
     (case scalar_one_or_none (select_movie_by_id movie_id db) of
        Inl e \<Rightarrow> Inl e
      | Inr None \<Rightarrow> Inl (NotFound not_found_detail)
      | Inr (Some movie) \<Rightarrow> MovieDetailSchema_model_validate movie)"

section \<open>The create schema and handler\<close>

record 'st MovieCreateSchema =
  cr_name :: string
  cr_date :: pydate
  cr_score :: real
  cr_overview :: string
  cr_status :: 'st
  cr_budget :: real
  cr_revenue :: real
  cr_country :: string
  cr_genres :: "string list"
  cr_actors :: "string list"
  cr_languages :: "string list"

text \<open>\<^verbatim>\<open>re.fullmatch(r"[A-Z]{2,3}", v)\<close>: the whole string is two or three letters A to Z.\<close>

definition is_upper_letter :: "char \<Rightarrow> bool" where
  "is_upper_letter c = (65 \<le> (of_char c :: nat) \<and> (of_char c :: nat) \<le> 90)"

definition fullmatch_country :: "string \<Rightarrow> bool" where
  "fullmatch_country v = (2 \<le> length v \<and> length v \<le> 3 \<and> list_all is_upper_letter v)"

text \<open>
  The two field validators of \<^verbatim>\<open>MovieCreateSchema\<close>. A \<^verbatim>\<open>ValueError\<close> raised by a
  validator is a validation error of the request.
\<close>

definition date_not_too_far :: "pydate \<Rightarrow> pydate \<Rightarrow> error + pydate" where
  "date_not_too_far today v = (if v > today + 365 then Inl ValidationError else Inr v)"

definition country_alpha3 :: "string \<Rightarrow> error + string" where
  "country_alpha3 v = (if \<not> fullmatch_country v then Inl ValidationError else Inr v)"

text \<open>
  Validation of a create payload whose fields are present and of the declared types: the
  names of the fields that fail, in the order of declaration. The request is answered 422
  when there is one, before the handler body (and so any query) runs.
\<close>

definition create_field_errors :: "pydate \<Rightarrow> 'st MovieCreateSchema \<Rightarrow> string list" where
  "create_field_errors today p =
     (if 255 < length (cr_name p) then [''name''] else []) @
     (case date_not_too_far today (cr_date p) of Inl _ \<Rightarrow> [''date''] | Inr _ \<Rightarrow> []) @
     (if 0 \<le> cr_score p \<and> cr_score p \<le> 100 then [] else [''score'']) @
     (if 0 \<le> cr_budget p then [] else [''budget'']) @
     (if 0 \<le> cr_revenue p then [] else [''revenue'']) @
     (case country_alpha3 (cr_country p) of Inl _ \<Rightarrow> [''country''] | Inr _ \<Rightarrow> [])"

definition MovieCreateSchema_validate ::
    "pydate \<Rightarrow> 'st MovieCreateSchema \<Rightarrow> error + 'st MovieCreateSchema" where
  "MovieCreateSchema_validate today p =
     (if create_field_errors today p = [] then Inr p else Inl ValidationError)"

text \<open>
  The look-up-or-create steps of \<^verbatim>\<open>create_movie\<close>. Each returns the object and the
  table after the step; \<^verbatim>\<open>db.add\<close> and \<^verbatim>\<open>db.flush\<close> append the new row, so that a
  later query of the same request sees it.
\<close>

definition get_or_create_country ::
    "CountryModel list \<Rightarrow> string \<Rightarrow> error + (CountryModel \<times> CountryModel list)" where
  "get_or_create_country table code =
     (case scalar_one_or_none (filter (\<lambda>c. c_code c = code) table) of
        Inl e \<Rightarrow> Inl e
      | Inr (Some country) \<Rightarrow> Inr (country, table)
      | Inr None \<Rightarrow>
          (let country = \<lparr>c_id = next_id (map c_id table), c_code = code, c_name = None\<rparr>
           in Inr (country, table @ [country])))"

definition get_or_create_named ::
    "NamedModel list \<Rightarrow> string \<Rightarrow> error + (NamedModel \<times> NamedModel list)" where
  "get_or_create_named table name =
     (case scalar_one_or_none (filter (\<lambda>g. n_name g = name) table) of
        Inl e \<Rightarrow> Inl e
      | Inr (Some g) \<Rightarrow> Inr (g, table)
      | Inr None \<Rightarrow>
          (let g = \<lparr>n_id = next_id (map n_id table), n_name = name\<rparr>
           in Inr (g, table @ [g])))"

text \<open>
  Each of the three \<^verbatim>\<open>for\<close> loops (genres, actors, languages): the objects in the
  order of the payload's names, and the table after the loop.
\<close>

fun resolve_names ::
    "NamedModel list \<Rightarrow> string list \<Rightarrow> error + (NamedModel list \<times> NamedModel list)" where
  "resolve_names table [] = Inr ([], table)"
| "resolve_names table (name # names) =
     (case get_or_create_named table name of
        Inl e \<Rightarrow> Inl e
      | Inr (g, table') \<Rightarrow>
          (case resolve_names table' names of
             Inl e \<Rightarrow> Inl e
           | Inr (gs, table'') \<Rightarrow> Inr (g # gs, table'')))"

text \<open>\<^verbatim>\<open>select(MovieModel).where(MovieModel.name == ..., MovieModel.date == ...)\<close>.\<close>

definition select_movie_by_name_date :: "string \<Rightarrow> pydate \<Rightarrow> 'st database \<Rightarrow> 'st MovieModel list" where
  "select_movie_by_name_date name date db =
     filter (\<lambda>m. m_name m = Some name \<and> m_date m = Some date) (db_movies db)"

text \<open>
  \<^verbatim>\<open>create_movie\<close>: the response or the error, and the tables the request leaves. The
  relations of the new movie are the lists the loops built.
\<close>

definition create_movie ::
    "'st MovieCreateSchema \<Rightarrow> 'st database \<Rightarrow> (error + 'st MovieDetailSchema) \<times> 'st database" where
  "create_movie movie_in db =
     (case scalar_one_or_none (select_movie_by_name_date (cr_name movie_in) (cr_date movie_in) db) of
        Inl e \<Rightarrow> (Inl e, db)
      | Inr (Some existing_movie) \<Rightarrow> (Inl (Conflict (cr_name movie_in) (cr_date movie_in)), db)
      | Inr None \<Rightarrow>
          (case get_or_create_country (db_countries db) (cr_country movie_in) of
             Inl e \<Rightarrow> (Inl e, db)
           | Inr (country, countries') \<Rightarrow>
          (case resolve_names (db_genres db) (cr_genres movie_in) of
             Inl e \<Rightarrow> (Inl e, db)
           | Inr (genres, genres') \<Rightarrow>
          (case resolve_names (db_actors db) (cr_actors movie_in) of
             Inl e \<Rightarrow> (Inl e, db)
           | Inr (actors, actors') \<Rightarrow>
          (case resolve_names (db_languages db) (cr_languages movie_in) of
             Inl e \<Rightarrow> (Inl e, db)
           | Inr (languages, languages') \<Rightarrow>
               (let movie =
                      \<lparr>m_id = next_id (map m_id (db_movies db)),
                       m_name = Some (cr_name movie_in),
                       m_date = Some (cr_date movie_in),
                       m_score = Some (cr_score movie_in),
                       m_overview = Some (cr_overview movie_in),
                       m_status = Some (cr_status movie_in),
                       m_budget = Some (cr_budget movie_in),
                       m_revenue = Some (cr_revenue movie_in),
                       m_country = country,
                       m_genres = genres,
                       m_actors = actors,
                       m_languages = languages\<rparr>
                in (MovieDetailSchema_model_validate movie,
                    \<lparr>db_movies = db_movies db @ [movie],
                     db_countries = countries',
                     db_genres = genres',
                     db_actors = actors',
                     db_languages = languages'\<rparr>)))))))"

section \<open>The delete handler\<close>

definition delete_movie :: "int \<Rightarrow> 'st database \<Rightarrow> (error + unit) \<times> 'st database" where
  "delete_movie movie_id db =
     (case scalar_one_or_none (select_movie_by_id movie_id db) of
        Inl e \<Rightarrow> (Inl e, db)
      | Inr None \<Rightarrow> (Inl (NotFound not_found_detail), db)
      | Inr (Some movie) \<Rightarrow>
          (Inr (), db\<lparr>db_movies := filter (\<lambda>m. m_id m \<noteq> m_id movie) (db_movies db)\<rparr>))"

section \<open>The update schema and handler\<close>

text \<open>
  A field of a PATCH body: the key is absent, or it is supplied with a value that may be
  \<^verbatim>\<open>null\<close>.
\<close>

datatype 'a field = Unset | Supplied "'a option"

text \<open>
  The value under a key the schema does not declare, \<^verbatim>\<open>"country"\<close>: \<^verbatim>\<open>null\<close>, a
  string, or any other JSON value (a number, a boolean, an array, an object).
\<close>

datatype json = JNull | JStr string | JOther

text \<open>
  The body of a PATCH request as the model validator sees it: the seven declared keys, of
  the declared types where supplied, and the key \<^verbatim>\<open>"country"\<close> (\<open>None\<close>: absent).
\<close>

record 'st update_body =
  ub_name :: "string field"
  ub_date :: "pydate field"
  ub_score :: "real field"
  ub_overview :: "string field"
  ub_status :: "'st field"
  ub_budget :: "real field"
  ub_revenue :: "real field"
  ub_country :: "json option"

text \<open>
  A validated \<^verbatim>\<open>MovieUpdateSchema\<close>: the value of each declared field, with whether it
  was set (\<^verbatim>\<open>model_fields_set\<close>). \<^verbatim>\<open>country\<close> is not a field of it.
\<close>

record 'st MovieUpdateSchema =
  u_name :: "string field"
  u_date :: "pydate field"
  u_score :: "real field"
  u_overview :: "string field"
  u_status :: "'st field"
  u_budget :: "real field"
  u_revenue :: "real field"

text \<open>\<^verbatim>\<open>str.upper\<close> on ASCII text.\<close>

definition upper_char :: "char \<Rightarrow> char" where
  "upper_char c =
     (if 97 \<le> (of_char c :: nat) \<and> (of_char c :: nat) \<le> 122
      then char_of ((of_char c :: nat) - 32) else c)"

definition upper :: "string \<Rightarrow> string" where
  "upper s = map upper_char s"

text \<open>
  \<^verbatim>\<open>validate_country\<close>, the \<^verbatim>\<open>model_validator(mode="before")\<close>, runs on the raw body.
  \<^verbatim>\<open>values.get("country")\<close> is \<^verbatim>\<open>None\<close> for an absent key and for \<^verbatim>\<open>null\<close>, and the
  guard \<^verbatim>\<open>country is not None\<close> skips both. \<^verbatim>\<open>country.upper()\<close> exists on a string only:
  on any other value the attribute lookup raises \<^verbatim>\<open>AttributeError\<close>, which is not a
  \<^verbatim>\<open>ValueError\<close> and so is not turned into a validation error.
\<close>

definition validate_country :: "'st update_body \<Rightarrow> error + 'st update_body" where
  "validate_country values =
     (case ub_country values of
        None \<Rightarrow> Inr values
      | Some JNull \<Rightarrow> Inr values
      | Some (JStr s) \<Rightarrow>
          (let country = upper s
           in if \<not> fullmatch_country country then Inl ValidationError
              else Inr (values\<lparr>ub_country := Some (JStr country)\<rparr>))
      | Some JOther \<Rightarrow> Inl (Unhandled AttributeError))"

text \<open>
  The field validator \<^verbatim>\<open>date_not_too_far\<close> of \<^verbatim>\<open>MovieUpdateSchema\<close>, on the value the
  field's own type let through. \<^verbatim>\<open>None > date.today() + timedelta(days=365)\<close> raises
  \<^verbatim>\<open>TypeError\<close>, which is not a \<^verbatim>\<open>ValueError\<close> either.
\<close>

definition date_not_too_far_update :: "pydate \<Rightarrow> pydate option \<Rightarrow> error + pydate option" where
  "date_not_too_far_update today v =
     (case v of
        None \<Rightarrow> Inl (Unhandled TypeError)
      | Some d \<Rightarrow> if d > today + 365 then Inl ValidationError else Inr v)"

text \<open>
  The field \<^verbatim>\<open>date\<close> of \<^verbatim>\<open>MovieUpdateSchema\<close> is declared
  \<^verbatim>\<open>date: Optional[date] = None\<close>. In a class body Python performs the assignment of an
  annotated assignment before it evaluates the annotation, so the name \<^verbatim>\<open>date\<close> in the
  annotation is the class attribute just bound to \<^verbatim>\<open>None\<close>, not \<^verbatim>\<open>datetime.date\<close>:
  the annotation is \<^verbatim>\<open>Optional[None]\<close>, the type of \<^verbatim>\<open>None\<close>. (The fields
  \<^verbatim>\<open>date: date\<close> of \<^verbatim>\<open>MovieBase\<close> and \<^verbatim>\<open>MovieCreateSchema\<close> have no default, bind
  nothing, and are dates.) So the field lets only \<^verbatim>\<open>null\<close> through: a supplied date is
  a validation error, and a supplied \<^verbatim>\<open>null\<close> goes on to the field validator. An absent
  key takes the default, which is not validated.
\<close>

definition validate_date_field :: "pydate \<Rightarrow> pydate field \<Rightarrow> error + pydate field" where
  "validate_date_field today f =
     (case f of
        Unset \<Rightarrow> Inr Unset
      | Supplied (Some d) \<Rightarrow> Inl ValidationError
      | Supplied None \<Rightarrow>
          (case date_not_too_far_update today None of
             Inl e \<Rightarrow> Inl e
           | Inr v \<Rightarrow> Inr (Supplied v)))"

text \<open>
  The bounds of the other declared fields apply to a supplied value that is not
  \<^verbatim>\<open>null\<close>: \<^verbatim>\<open>Optional[str]\<close> with \<^verbatim>\<open>max_length=255\<close>, \<^verbatim>\<open>Optional[float]\<close> with
  \<^verbatim>\<open>ge=0, le=100\<close> or \<^verbatim>\<open>ge=0\<close>.
\<close>

definition field_ok :: "('a \<Rightarrow> bool) \<Rightarrow> 'a field \<Rightarrow> bool" where
  "field_ok ok f = (case f of Supplied (Some v) \<Rightarrow> ok v | _ \<Rightarrow> True)"

definition update_field_errors :: "pydate \<Rightarrow> 'st update_body \<Rightarrow> string list" where
  "update_field_errors today values =
     (if field_ok (\<lambda>s. length s \<le> 255) (ub_name values) then [] else [''name'']) @
     (case validate_date_field today (ub_date values) of Inl _ \<Rightarrow> [''date''] | Inr _ \<Rightarrow> []) @
     (if field_ok (\<lambda>s. 0 \<le> s \<and> s \<le> 100) (ub_score values) then [] else [''score'']) @
     (if field_ok (\<lambda>b. 0 \<le> b) (ub_budget values) then [] else [''budget'']) @
     (if field_ok (\<lambda>r. 0 \<le> r) (ub_revenue values) then [] else [''revenue''])"

text \<open>
  Validation of a PATCH body: the model validator first; then the fields, whose validation
  errors are collected, while an exception that is not a validation error ends the
  validation at once and reaches the framework unhandled.
\<close>

definition MovieUpdateSchema_validate ::
    "pydate \<Rightarrow> 'st update_body \<Rightarrow> error + 'st MovieUpdateSchema" where
  "MovieUpdateSchema_validate today body =
     (case validate_country body of
        Inl e \<Rightarrow> Inl e
      | Inr values \<Rightarrow>
          (case validate_date_field today (ub_date values) of
             Inl (Unhandled x) \<Rightarrow> Inl (Unhandled x)
           | _ \<Rightarrow>
               if update_field_errors today values = []
               then Inr \<lparr>u_name = ub_name values, u_date = ub_date values,
                         u_score = ub_score values, u_overview = ub_overview values,
                         u_status = ub_status values, u_budget = ub_budget values,
                         u_revenue = ub_revenue values\<rparr>
               else Inl ValidationError))"

text \<open>
  \<^verbatim>\<open>movie_data.model_dump(exclude_unset=True)\<close>: the fields that were set, in the order
  of declaration, each with its value. An item is the key together with a value of the
  key's type.
\<close>

datatype 'st item =
    Name "string option"
  | Date "pydate option"
  | Score "real option"
  | Overview "string option"
  | Status "'st option"
  | Budget "real option"
  | Revenue "real option"

definition dump :: "('a option \<Rightarrow> 'st item) \<Rightarrow> 'a field \<Rightarrow> 'st item list" where
  "dump key f = (case f of Unset \<Rightarrow> [] | Supplied v \<Rightarrow> [key v])"

definition model_dump_exclude_unset :: "'st MovieUpdateSchema \<Rightarrow> 'st item list" where
  "model_dump_exclude_unset movie_data =
     dump Name (u_name movie_data) @ dump Date (u_date movie_data) @
     dump Score (u_score movie_data) @ dump Overview (u_overview movie_data) @
     dump Status (u_status movie_data) @ dump Budget (u_budget movie_data) @
     dump Revenue (u_revenue movie_data)"

fun setattr :: "'st MovieModel \<Rightarrow> 'st item \<Rightarrow> 'st MovieModel" where
  "setattr movie (Name v) = movie\<lparr>m_name := v\<rparr>"
| "setattr movie (Date v) = movie\<lparr>m_date := v\<rparr>"
| "setattr movie (Score v) = movie\<lparr>m_score := v\<rparr>"
| "setattr movie (Overview v) = movie\<lparr>m_overview := v\<rparr>"
| "setattr movie (Status v) = movie\<lparr>m_status := v\<rparr>"
| "setattr movie (Budget v) = movie\<lparr>m_budget := v\<rparr>"
| "setattr movie (Revenue v) = movie\<lparr>m_revenue := v\<rparr>"

definition updated_detail :: string where
  "updated_detail = ''Movie updated successfully.''"

text \<open>\<^verbatim>\<open>update_movie\<close>: the \<^verbatim>\<open>for\<close> loop is a fold of \<^verbatim>\<open>setattr\<close> over the items.\<close>

definition update_movie ::
    "int \<Rightarrow> 'st MovieUpdateSchema \<Rightarrow> 'st database \<Rightarrow> (error + string) \<times> 'st database" where
  "update_movie movie_id movie_data db =
     (case scalar_one_or_none (select_movie_by_id movie_id db) of
        Inl e \<Rightarrow> (Inl e, db)
      | Inr None \<Rightarrow> (Inl (NotFound not_found_detail), db)
      | Inr (Some movie) \<Rightarrow>
          (let update_data = model_dump_exclude_unset movie_data;
               movie' = fold (\<lambda>item m. setattr m item) update_data movie
           in (Inr updated_detail,
               db\<lparr>db_movies := map (\<lambda>m. if m_id m = m_id movie then movie' else m) (db_movies db)\<rparr>)))"

text \<open>
  A PATCH request as the framework runs it: the body is validated, and the handler runs on
  the validated object only.
\<close>

definition patch_movie ::
    "pydate \<Rightarrow> int \<Rightarrow> 'st update_body \<Rightarrow> 'st database \<Rightarrow> (error + string) \<times> 'st database" where
  "patch_movie today movie_id body db =
     (case MovieUpdateSchema_validate today body of
        Inl e \<Rightarrow> (Inl e, db)
      | Inr movie_data \<Rightarrow> update_movie movie_id movie_data db)"

text \<open>A POST request likewise.\<close>

definition post_movie ::
    "pydate \<Rightarrow> 'st MovieCreateSchema \<Rightarrow> 'st database \<Rightarrow> (error + 'st MovieDetailSchema) \<times> 'st database" where
  "post_movie today body db =
     (case MovieCreateSchema_validate today body of
        Inl e \<Rightarrow> (Inl e, db)
      | Inr movie_in \<Rightarrow> create_movie movie_in db)"

section \<open>States and rows of the data model\<close>

text \<open>
  The data model (section 3 of the specification) gives a movie a name, a date, an overview
  and a status, a score between 0 and 100, and a budget and a revenue that are not
  negative. A row of a catalog state is such a movie; the response schemas accept these
  rows and no others.
\<close>

definition movie_row_ok :: "'st MovieModel \<Rightarrow> bool" where
  "movie_row_ok m =
     (m_name m \<noteq> None \<and> m_date m \<noteq> None \<and> m_overview m \<noteq> None \<and> m_status m \<noteq> None \<and>
      (case m_score m of None \<Rightarrow> False | Some s \<Rightarrow> 0 \<le> s \<and> s \<le> 100) \<and>
      (case m_budget m of None \<Rightarrow> False | Some b \<Rightarrow> 0 \<le> b) \<and>
      (case m_revenue m of None \<Rightarrow> False | Some v \<Rightarrow> 0 \<le> v))"

text \<open>A summary of the list response shows a row: id, name, date, score and overview.\<close>

definition item_of_row :: "MovieListItemSchema \<Rightarrow> 'st MovieModel \<Rightarrow> bool" where
  "item_of_row item m =
     (li_id item = m_id m \<and> m_name m = Some (li_name item) \<and> m_date m = Some (li_date item) \<and>
      m_score m = Some (li_score item) \<and> m_overview m = Some (li_overview item))"

text \<open>The value of a decimal digit, to read a rendered number back.\<close>

definition digit_value :: "char \<Rightarrow> nat" where
  "digit_value c = of_char c - 48"

text \<open>
  What one of the three loops has done to its table, given the table before (\<open>old\<close>)
  and after (\<open>new\<close>), the payload's names and the objects the loop collected: the old
  rows are kept as they were, the rows added after them bear exactly the names that had no
  row, names are unique in the table, and the objects are rows of the table, one for each
  name of the payload in order.
\<close>

definition names_resolved ::
    "NamedModel list \<Rightarrow> NamedModel list \<Rightarrow> string list \<Rightarrow> NamedModel list \<Rightarrow> bool" where
  "names_resolved old new names objs =
     (take (length old) new = old \<and>
      distinct (map n_name new) \<and>
      set (map n_name (drop (length old) new)) = set names - set (map n_name old) \<and>
      map n_name objs = names \<and>
      set objs \<subseteq> set new)"

text \<open>
  The same for the country: the table is unchanged when a row has the code, and otherwise
  gains one row with the code and no name; codes are unique in it, and the object is the
  row with the code.
\<close>

definition country_resolved ::
    "CountryModel list \<Rightarrow> CountryModel list \<Rightarrow> string \<Rightarrow> CountryModel \<Rightarrow> bool" where
  "country_resolved old new code obj =
     (new = (if code \<in> set (map c_code old) then old
             else old @ [\<lparr>c_id = next_id (map c_id old), c_code = code, c_name = None\<rparr>]) \<and>
      distinct (map c_code new) \<and>
      obj \<in> set new \<and> c_code obj = code)"

text \<open>
  The data model makes the country code unique, the genre, actor and language names unique
  per entity type, and a movie's (name, date) pair unique. Where a key is not unique the
  handlers' \<^verbatim>\<open>scalar_one_or_none\<close> raises.
\<close>

definition lookups_unique :: "'st database \<Rightarrow> bool" where
  "lookups_unique db =
     (distinct (map c_code (db_countries db)) \<and> distinct (map n_name (db_genres db)) \<and>
      distinct (map n_name (db_actors db)) \<and> distinct (map n_name (db_languages db)))"

definition movies_unique :: "'st database \<Rightarrow> bool" where
  "movies_unique db = distinct (map (\<lambda>m. (m_name m, m_date m)) (db_movies db))"

text \<open>The movie the handler builds from the payload and the resolved relations.\<close>

definition new_movie ::
    "'st database \<Rightarrow> 'st MovieCreateSchema \<Rightarrow> CountryModel \<Rightarrow> NamedModel list \<Rightarrow>
     NamedModel list \<Rightarrow> NamedModel list \<Rightarrow> 'st MovieModel" where
  "new_movie db p country genres actors languages =
     \<lparr>m_id = next_id (map m_id (db_movies db)),
      m_name = Some (cr_name p), m_date = Some (cr_date p), m_score = Some (cr_score p),
      m_overview = Some (cr_overview p), m_status = Some (cr_status p),
      m_budget = Some (cr_budget p), m_revenue = Some (cr_revenue p),
      m_country = country, m_genres = genres, m_actors = actors, m_languages = languages\<rparr>"

text \<open>
  What a partial update is to do to one attribute: an omitted field leaves the old value,
  a supplied field replaces it.
\<close>

definition applied :: "'a field \<Rightarrow> 'a option \<Rightarrow> 'a option" where
  "applied f old = (case f of Unset \<Rightarrow> old | Supplied v \<Rightarrow> v)"

text \<open>The movie after a partial update: each scalar attribute as above, all else as it was.\<close>

definition patched :: "'st MovieUpdateSchema \<Rightarrow> 'st MovieModel \<Rightarrow> 'st MovieModel" where
  "patched data m =
     m\<lparr>m_name := applied (u_name data) (m_name m),
       m_date := applied (u_date data) (m_date m),
       m_score := applied (u_score data) (m_score m),
       m_overview := applied (u_overview data) (m_overview m),
       m_status := applied (u_status data) (m_status m),
       m_budget := applied (u_budget data) (m_budget m),
       m_revenue := applied (u_revenue data) (m_revenue m)\<rparr>"

text \<open>An update that supplies no \<^verbatim>\<open>null\<close>.\<close>

definition no_null :: "'st MovieUpdateSchema \<Rightarrow> bool" where
  "no_null data =
     (u_name data \<noteq> Supplied None \<and> u_date data \<noteq> Supplied None \<and>
      u_score data \<noteq> Supplied None \<and> u_overview data \<noteq> Supplied None \<and>
      u_status data \<noteq> Supplied None \<and> u_budget data \<noteq> Supplied None \<and>
      u_revenue data \<noteq> Supplied None)"

text \<open>
  A catalog state of the data model: ids are a primary key, (name, date) pairs and lookup
  keys are unique, and every row is a movie of the data model. The empty catalog is one.
\<close>

definition catalog_ok :: "'st database \<Rightarrow> bool" where
  "catalog_ok db =
     (distinct (map m_id (db_movies db)) \<and> movies_unique db \<and> lookups_unique db \<and>
      list_all movie_row_ok (db_movies db))"

definition empty_catalog :: "'st database" where
  "empty_catalog =
     \<lparr>db_movies = [], db_countries = [], db_genres = [], db_actors = [], db_languages = []\<rparr>"

subsection \<open>A small catalog\<close>

definition sample_country :: CountryModel where
  "sample_country = \<lparr>c_id = 1, c_code = ''US'', c_name = None\<rparr>"

definition sample_movie :: "int \<Rightarrow> string \<Rightarrow> pydate \<Rightarrow> unit MovieModel" where
  "sample_movie i n d =
     \<lparr>m_id = i, m_name = Some n, m_date = Some d, m_score = Some 50, m_overview = Some ''plot'',
      m_status = Some (), m_budget = Some 1, m_revenue = Some 2, m_country = sample_country,
      m_genres = [], m_actors = [], m_languages = []\<rparr>"

definition sample_db :: "unit database" where
  "sample_db =
     \<lparr>db_movies = [sample_movie 1 ''A'' 10, sample_movie 2 ''B'' 20, sample_movie 3 ''C'' 30],
      db_countries = [sample_country], db_genres = [], db_actors = [], db_languages = []\<rparr>"

text \<open>A create payload for the small catalog.\<close>

definition sample_payload :: "unit MovieCreateSchema" where
  "sample_payload =
     \<lparr>cr_name = ''A'', cr_date = 11, cr_score = 70, cr_overview = ''again'', cr_status = (),
      cr_budget = 5, cr_revenue = 0, cr_country = ''FR'',
      cr_genres = [''Drama'', ''Drama''], cr_actors = [], cr_languages = [''fr'']\<rparr>"

text \<open>The PATCH body \<^verbatim>\<open>{}\<close>.\<close>

definition empty_body :: "unit update_body" where
  "empty_body =
     \<lparr>ub_name = Unset, ub_date = Unset, ub_score = Unset, ub_overview = Unset,
      ub_status = Unset, ub_budget = Unset, ub_revenue = Unset, ub_country = None\<rparr>"

text \<open>PATCH bodies for the small catalog, and the validated object of the first.\<close>

definition score_body :: "unit update_body" where
  "score_body = empty_body\<lparr>ub_score := Supplied (Some 95)\<rparr>"

definition score_data :: "unit MovieUpdateSchema" where
  "score_data =
     \<lparr>u_name = Unset, u_date = Unset, u_score = Supplied (Some 95), u_overview = Unset,
      u_status = Unset, u_budget = Unset, u_revenue = Unset\<rparr>"

definition country_body :: "string \<Rightarrow> unit update_body" where
  "country_body s = empty_body\<lparr>ub_score := Supplied (Some 95), ub_country := Some (JStr s)\<rparr>"

section \<open>Pagination arithmetic\<close>

text \<open>
  The handler's \<^verbatim>\<open>(total_items + per_page - 1) // per_page\<close> is the ceiling of the
  quotient.
\<close>

lemma ceil_div:
  fixes n k :: int
  assumes "1 \<le> k"
  shows "(n + k - 1) div k = \<lceil>real_of_int n / real_of_int k\<rceil>"
proof -
  define z where "z = (n + k - 1) div k"
  define r where "r = (n + k - 1) mod k"
  have k: "0 < k" using assms by simp
  have eq: "n + k - 1 = z * k + r" unfolding z_def r_def by simp
  have r: "0 \<le> r" "r < k" unfolding r_def using k by simp_all
  have up: "n \<le> z * k" using eq r by linarith
  have lo: "(z - 1) * k < n" using eq r by (simp add: algebra_simps)
  have "real_of_int n \<le> real_of_int (z * k)" using up by linarith
  then have 1: "real_of_int n / real_of_int k \<le> real_of_int z"
    using k by (simp add: pos_divide_le_eq)
  have "real_of_int ((z - 1) * k) < real_of_int n" using lo by linarith
  then have 2: "real_of_int z - 1 < real_of_int n / real_of_int k"
    using k by (simp add: pos_less_divide_eq)
  have "\<lceil>real_of_int n / real_of_int k\<rceil> = z"
    by (rule ceiling_unique) (use 1 2 in simp_all)
  then show ?thesis by (simp add: z_def)
qed

lemma total_pages_ceiling:
  "1 \<le> per_page \<Longrightarrow>
     (int (length ms) + per_page - 1) div per_page = \<lceil>real (length ms) / real_of_int per_page\<rceil>"
  using ceil_div [of per_page "int (length ms)"] by simp

text \<open>A page within range starts inside the listing.\<close>

lemma offset_in_range:
  fixes n per_page page :: int
  assumes "1 \<le> page" "1 \<le> per_page" "page \<le> (n + per_page - 1) div per_page"
  shows "per_page * (page - 1) < n"
proof -
  define z where "z = (n + per_page - 1) div per_page"
  define r where "r = (n + per_page - 1) mod per_page"
  have eq: "n + per_page - 1 = z * per_page + r" unfolding z_def r_def by simp
  have r: "0 \<le> r" "r < per_page" unfolding r_def using assms by simp_all
  have "per_page * (page - 1) \<le> per_page * (z - 1)"
    using assms unfolding z_def by (intro mult_left_mono) simp_all
  also have "\<dots> = z * per_page - per_page" by (simp add: algebra_simps)
  also have "\<dots> < n" using eq r by linarith
  finally show ?thesis .
qed

text \<open>\<open>str_nat\<close> writes a number in decimal: reading the digits back gives the number.\<close>

lemma digit_value_digit: "d < 10 \<Longrightarrow> digit_value (digit d) = d"
proof -
  assume "d < 10"
  then have "d \<in> {0, 1, 2, 3, 4, 5, 6, 7, 8, 9}" by auto
  then show ?thesis by (auto simp: digit_value_def digit_def)
qed

lemma str_nat_decimal: "foldl (\<lambda>a c. 10 * a + digit_value c) 0 (str_nat n) = n"
proof (induction n rule: str_nat.induct)
  case (1 n)
  show ?case
  proof (cases "n < 10")
    case True
    then show ?thesis by (simp add: str_nat.simps [of n] digit_value_digit)
  next
    case False
    with 1 show ?thesis by (simp add: str_nat.simps [of n] digit_value_digit)
  qed
qed

section \<open>The list handler: the page, the errors, the links\<close>

lemma init_ok:
  "movie_row_ok m \<Longrightarrow> \<exists>item. MovieListItemSchema_init m = Inr item \<and> item_of_row item m"
  by (auto simp: movie_row_ok_def MovieListItemSchema_init_def item_of_row_def split: option.splits)

lemma movies_data_of_ok:
  "list_all movie_row_ok ms \<Longrightarrow>
     \<exists>items. movies_data_of ms = Inr items \<and> list_all2 item_of_row items ms"
proof (induction ms)
  case Nil
  then show ?case by simp
next
  case (Cons m ms)
  then obtain items where i: "movies_data_of ms = Inr items" "list_all2 item_of_row items ms"
    by auto
  from Cons.prems obtain item where j: "MovieListItemSchema_init m = Inr item" "item_of_row item m"
    using init_ok [of m] by auto
  show ?case using i j by simp
qed

lemma movies_data_of_not_404: "movies_data_of ms \<noteq> Inl (NotFound d)"
  by (induction ms)
    (auto simp: MovieListItemSchema_init_def split: sum.splits option.splits if_splits)

text \<open>
  Under a primary key there is one listing in strictly descending order of id, and the
  query's \<^verbatim>\<open>order_by(desc(MovieModel.id))\<close> is that listing.
\<close>

lemma desc_unique:
  assumes d: "distinct (map m_id ms)"
    and s: "set ys = set ms"
    and o: "sorted_wrt (\<lambda>a b. m_id b < m_id a) ys"
  shows "order_by_desc_id ms = ys"
proof -
  let ?f = "\<lambda>m::'a MovieModel. - m_id m"
  let ?xs = "sort_key ?f ms"
  have inj_id: "inj_on m_id (set ms)" and dms: "distinct ms" using d by (auto simp: distinct_map)
  have inj: "inj_on ?f (set ms)" using inj_id by (auto simp: inj_on_def)
  have "sorted (map ?f ?xs)" by (rule sorted_sort_key)
  moreover have "distinct (map ?f ?xs)" using dms inj by (simp add: distinct_map)
  moreover have "sorted_wrt (<) (map ?f ys)" using o by (simp add: sorted_wrt_map)
  then have "sorted (map ?f ys)" "distinct (map ?f ys)" by (simp_all add: strict_sorted_iff)
  moreover have "set (map ?f ?xs) = set (map ?f ys)" using s by simp
  ultimately have "map ?f ?xs = map ?f ys" by (rule sorted_distinct_set_unique)
  moreover have "inj_on ?f (set ?xs \<union> set ys)" using inj s by simp
  ultimately have "?xs = ys" by (rule map_inj_on)
  then show ?thesis by (simp add: order_by_desc_id_def)
qed

text \<open>
  Claim C1. In a catalog state with at least one movie (ids a primary key, rows as the data
  model has them), for \<open>page \<ge> 1\<close>, \<open>per_page\<close> in \<open>[1, 20]\<close> and
  \<open>page \<le> \<lceil>total_items / per_page\<rceil>\<close>, the list operation succeeds; its
  \<open>total_items\<close> is the number of movies and its \<open>total_pages\<close> the ceiling of
  \<open>total_items / per_page\<close>; its summaries show, in order, the movies that remain of the
  listing \<open>ys\<close> in descending id after skipping \<open>per_page * (page - 1)\<close> of them and
  keeping \<open>per_page\<close>; there are at most \<open>per_page\<close> summaries, and at least one.
\<close>

theorem list_page_contents:
  assumes ne: "db_movies db \<noteq> []"
    and pk: "distinct (map m_id (db_movies db))"
    and ok: "list_all movie_row_ok (db_movies db)"
    and bounds: "1 \<le> page" "1 \<le> per_page" "per_page \<le> 20"
    and inrange: "page \<le> \<lceil>real (length (db_movies db)) / real_of_int per_page\<rceil>"
    and ys: "set ys = set (db_movies db)" "sorted_wrt (\<lambda>a b. m_id b < m_id a) ys"
  shows "\<exists>r. get_movies_list db page per_page = Inr r \<and>
             r_total_items r = int (length (db_movies db)) \<and>
             r_total_pages r = \<lceil>real (length (db_movies db)) / real_of_int per_page\<rceil> \<and>
             list_all2 item_of_row (r_movies r)
               (take (nat per_page) (drop (nat (per_page * (page - 1))) ys)) \<and>
             length (r_movies r) \<le> nat per_page \<and>
             0 < length (r_movies r)"
proof -
  let ?n = "int (length (db_movies db))"
  let ?tp = "(?n + per_page - 1) div per_page"
  let ?page = "take (nat per_page) (drop (nat (per_page * (page - 1))) ys)"
  have tp: "?tp = \<lceil>real (length (db_movies db)) / real_of_int per_page\<rceil>"
    using bounds by (simp add: total_pages_ceiling)
  have ord: "order_by_desc_id (db_movies db) = ys" using pk ys by (rule desc_unique)
  have len_ys: "length ys = length (db_movies db)"
    using ord by (metis length_sort order_by_desc_id_def)
  have "list_all movie_row_ok ys" using ok ys by (simp add: list_all_iff)
  then have "list_all movie_row_ok ?page"
    by (auto simp: list_all_iff dest: in_set_takeD in_set_dropD)
  then obtain items
    where items: "movies_data_of ?page = Inr items" "list_all2 item_of_row items ?page"
    using movies_data_of_ok by blast
  have off: "per_page * (page - 1) < ?n"
    using bounds inrange tp by (intro offset_in_range) simp_all
  have "0 \<le> per_page * (page - 1)" using bounds by simp
  then have "nat (per_page * (page - 1)) < length ys" using off len_ys by linarith
  then have "0 < length ?page" using bounds by simp
  moreover have "length items = length ?page" using items(2) by (rule list_all2_lengthD)
  ultimately have "0 < length items" "length items \<le> nat per_page" by simp_all
  then show ?thesis
    using ne bounds inrange tp ord items by (simp add: get_movies_list_def Let_def)
qed

text \<open>
  The second page of two of the small catalog: three movies, two pages, and the page holds
  the movie with the smallest id.
\<close>

theorem list_page_contents_witness:
  "\<exists>r. get_movies_list sample_db 2 2 = Inr r \<and>
       r_total_items r = 3 \<and> r_total_pages r = 2 \<and>
       list_all2 item_of_row (r_movies r) [sample_movie 1 ''A'' 10] \<and>
       length (r_movies r) \<le> 2 \<and> 0 < length (r_movies r)"
proof -
  let ?ys = "[sample_movie 3 ''C'' 30, sample_movie 2 ''B'' 20, sample_movie 1 ''A'' 10]"
  have ne: "db_movies sample_db \<noteq> []" by (simp add: sample_db_def)
  have pk: "distinct (map m_id (db_movies sample_db))"
    by (simp add: sample_db_def sample_movie_def)
  have ok: "list_all movie_row_ok (db_movies sample_db)"
    by (simp add: sample_db_def sample_movie_def movie_row_ok_def)
  have inrange: "2 \<le> \<lceil>real (length (db_movies sample_db)) / real_of_int 2\<rceil>"
    by (simp add: sample_db_def)
  have s: "set ?ys = set (db_movies sample_db)" by (auto simp: sample_db_def)
  have o: "sorted_wrt (\<lambda>a b. m_id b < m_id a) ?ys" by (simp add: sample_movie_def)
  have tp: "\<lceil>real (length (db_movies sample_db)) / real_of_int 2\<rceil> = 2"
    by (simp add: sample_db_def)
  show ?thesis
    using list_page_contents [OF ne pk ok _ _ _ inrange s o] tp
    by (simp add: sample_db_def)
qed

text \<open>
  Claim C2. For \<open>page \<ge> 1\<close> and \<open>per_page\<close> in \<open>[1, 20]\<close>, the list operation fails
  with NotFound if and only if the catalog has no movie or the page exceeds
  \<open>\<lceil>total_items / per_page\<rceil>\<close>.
\<close>

theorem list_not_found_iff:
  assumes "1 \<le> page" "1 \<le> per_page" "per_page \<le> 20"
  shows "(\<exists>detail. get_movies_list db page per_page = Inl (NotFound detail)) \<longleftrightarrow>
         (db_movies db = [] \<or>
          page > \<lceil>real (length (db_movies db)) / real_of_int per_page\<rceil>)"
  using assms total_pages_ceiling [of per_page "db_movies db"] movies_data_of_not_404
  by (auto simp: get_movies_list_def Let_def split: sum.splits)

text \<open>Page 3 of the small catalog at two movies a page is out of range.\<close>

theorem list_not_found_iff_witness:
  "(\<exists>detail. get_movies_list sample_db 3 2 = Inl (NotFound detail)) \<and>
   \<lceil>real (length (db_movies sample_db)) / real_of_int 2\<rceil> < 3"
proof -
  have tp: "\<lceil>real (length (db_movies sample_db)) / real_of_int 2\<rceil> = 2"
    by (simp add: sample_db_def)
  show ?thesis
    using list_not_found_iff [of 3 2 sample_db] tp by (simp add: sample_db_def)
qed

text \<open>
  Claim C8. In a successful list response \<open>prev_page\<close> is null exactly when
  \<open>page = 1\<close> and \<open>next_page\<close> is null exactly when \<open>page \<ge> total_pages\<close>; a link that
  is not null is \<^verbatim>\<open>/theater/movies/?page=\<close>\<open>n\<close>\<^verbatim>\<open>&per_page=\<close>\<open>m\<close> with \<open>n\<close> the
  decimal of \<open>page - 1\<close> (of \<open>page + 1\<close> for \<open>next_page\<close>) and \<open>m\<close> that of
  \<open>per_page\<close>.
\<close>

theorem list_page_links:
  assumes "get_movies_list db page per_page = Inr r"
  shows "(r_prev_page r = None \<longleftrightarrow> page = 1) \<and>
         (r_next_page r = None \<longleftrightarrow> r_total_pages r \<le> page) \<and>
         (page \<noteq> 1 \<longrightarrow> r_prev_page r =
            Some (''/theater/movies/?page='' @ str_int (page - 1) @
                  ''&per_page='' @ str_int per_page)) \<and>
         (page < r_total_pages r \<longrightarrow> r_next_page r =
            Some (''/theater/movies/?page='' @ str_int (page + 1) @
                  ''&per_page='' @ str_int per_page))"
  using assms
  by (auto simp: get_movies_list_def Let_def page_link_def base_url_def
      split: if_splits sum.splits)

text \<open>The middle page of the small catalog at one movie a page has both links.\<close>

theorem list_page_links_witness:
  "get_movies_list sample_db 2 1 =
     Inr \<lparr>r_movies =
            [\<lparr>li_id = 2, li_name = ''B'', li_date = 20, li_score = 50, li_overview = ''plot''\<rparr>],
          r_prev_page = Some ''/theater/movies/?page=1&per_page=1'',
          r_next_page = Some ''/theater/movies/?page=3&per_page=1'',
          r_total_pages = 3, r_total_items = 3\<rparr>"
proof -
  have run: "get_movies_list sample_db 2 1 =
     Inr \<lparr>r_movies =
            [\<lparr>li_id = 2, li_name = ''B'', li_date = 20, li_score = 50, li_overview = ''plot''\<rparr>],
          r_prev_page = Some (page_link 1 1),
          r_next_page = Some (page_link 3 1),
          r_total_pages = 3, r_total_items = 3\<rparr>"
    by (simp add: get_movies_list_def sample_db_def sample_movie_def Let_def
        order_by_desc_id_def MovieListItemSchema_init_def)
  have s: "str_int 1 = ''1''" "str_int 3 = ''3''"
    by (simp_all add: str_int_def str_nat.simps digit_def)
  show ?thesis using list_page_links [OF run] s by (simp add: run page_link_def base_url_def)
qed

section \<open>Queries under unique keys\<close>

text \<open>
  Where a key is unique in a table, the query for it never meets several rows:
  \<^verbatim>\<open>scalar_one_or_none\<close> is the first row with the key, if any.
\<close>

lemma scalar_filter_unique:
  "distinct (map f xs) \<Longrightarrow>
     scalar_one_or_none (filter (\<lambda>x. f x = k) xs) = Inr (find (\<lambda>x. f x = k) xs)"
proof (induction xs)
  case Nil
  then show ?case by (simp add: scalar_one_or_none_def)
next
  case (Cons x xs)
  show ?case
  proof (cases "f x = k")
    case True
    with Cons.prems have "k \<notin> f ` set xs" by auto
    then have "filter (\<lambda>x. f x = k) xs = []" by (auto simp: filter_empty_conv)
    with True show ?thesis by (simp add: scalar_one_or_none_def)
  next
    case False
    with Cons show ?thesis by simp
  qed
qed

lemma find_key_None: "find (\<lambda>x. f x = k) xs = None \<longleftrightarrow> k \<notin> f ` set xs"
  by (auto simp: find_None_iff)

lemma find_key_Some: "find (\<lambda>x. f x = k) xs = Some x \<Longrightarrow> x \<in> set xs \<and> f x = k"
  by (auto simp: find_Some_iff)

text \<open>A new primary key is not in the table.\<close>

lemma fold_max_ge: "a \<le> fold max ids (a::int)"
  by (induction ids arbitrary: a) (auto intro: order_trans [OF max.cobounded2])

lemma fold_max_upper: "x \<in> set ids \<Longrightarrow> x \<le> fold max ids (a::int)"
proof (induction ids arbitrary: a)
  case Nil
  then show ?case by simp
next
  case (Cons y ys)
  show ?case
  proof (cases "x = y")
    case True
    have "y \<le> max y a" by simp
    also have "\<dots> \<le> fold max ys (max y a)" by (rule fold_max_ge)
    finally show ?thesis using True by simp
  next
    case False
    with Cons show ?thesis by simp
  qed
qed

lemma next_id_fresh: "next_id ids \<notin> set ids"
proof
  assume "next_id ids \<in> set ids"
  then have "next_id ids \<le> fold max ids 0" by (rule fold_max_upper)
  then show False by (simp add: next_id_def)
qed

section \<open>The create handler\<close>

lemma get_or_create_named_cases:
  assumes "distinct (map n_name table)"
  shows "(\<exists>g \<in> set table. n_name g = name \<and> get_or_create_named table name = Inr (g, table)) \<or>
         (name \<notin> set (map n_name table) \<and>
          get_or_create_named table name =
            Inr (\<lparr>n_id = next_id (map n_id table), n_name = name\<rparr>,
                 table @ [\<lparr>n_id = next_id (map n_id table), n_name = name\<rparr>]))"
proof (cases "find (\<lambda>g. n_name g = name) table")
  case None
  then have "name \<notin> n_name ` set table" by (simp add: find_key_None)
  with None show ?thesis
    using scalar_filter_unique [OF assms, of name]
    by (simp add: get_or_create_named_def Let_def)
next
  case (Some g)
  then have "g \<in> set table" "n_name g = name" by (auto dest: find_key_Some)
  with Some show ?thesis
    using scalar_filter_unique [OF assms, of name]
    by (auto simp: get_or_create_named_def)
qed

lemma resolve_names_ok:
  assumes "distinct (map n_name table)"
  shows "\<exists>objs table'. resolve_names table names = Inr (objs, table') \<and>
           names_resolved table table' names objs"
  using assms
proof (induction names arbitrary: table)
  case Nil
  then show ?case by (simp add: names_resolved_def)
next
  case (Cons name names)
  from get_or_create_named_cases [OF Cons.prems, of name]
  obtain g t1 where step: "get_or_create_named table name = Inr (g, t1)"
    and g: "g \<in> set t1" "n_name g = name"
    and t1: "t1 = table \<or> (name \<notin> set (map n_name table) \<and> t1 = table @ [g])"
    by auto
  have d1: "distinct (map n_name t1)" using t1 Cons.prems g by auto
  from Cons.IH [OF d1] obtain objs t2 where rest: "resolve_names t1 names = Inr (objs, t2)"
    and r: "names_resolved t1 t2 names objs" by blast
  have run: "resolve_names table (name # names) = Inr (g # objs, t2)"
    using step rest by simp
  from r have pre: "take (length t1) t2 = t1" and d2: "distinct (map n_name t2)"
    and added: "set (map n_name (drop (length t1) t2)) = set names - set (map n_name t1)"
    and objs: "map n_name objs = names" "set objs \<subseteq> set t2"
    by (simp_all add: names_resolved_def)
  from pre have t2: "t2 = t1 @ drop (length t1) t2" by (metis append_take_drop_id)
  have "g \<in> set t2" using g(1) t2 by (metis Un_iff set_append)
  have "names_resolved table t2 (name # names) (g # objs)"
  proof (cases "t1 = table")
    case True
    then have "name \<in> set (map n_name table)" using g by auto
    then show ?thesis
      using True pre d2 added objs g \<open>g \<in> set t2\<close> by (auto simp: names_resolved_def)
  next
    case False
    with t1 have new: "name \<notin> set (map n_name table)" "t1 = table @ [g]" by auto
    have t2': "t2 = table @ g # drop (length t1) t2" using t2 new by simp
    have "take (length table) t2 = table" by (subst t2') simp
    moreover have "drop (length table) t2 = g # drop (length t1) t2" by (subst t2') simp
    ultimately show ?thesis
      using d2 added objs g \<open>g \<in> set t2\<close> new by (auto simp: names_resolved_def)
  qed
  with run show ?case by blast
qed

lemma get_or_create_country_ok:
  assumes "distinct (map c_code table)"
  shows "\<exists>country table'. get_or_create_country table code = Inr (country, table') \<and>
           country_resolved table table' code country"
proof (cases "find (\<lambda>c. c_code c = code) table")
  case None
  then have "code \<notin> c_code ` set table" by (simp add: find_key_None)
  with None assms show ?thesis
    using scalar_filter_unique [OF assms, of code]
    by (simp add: get_or_create_country_def country_resolved_def Let_def)
next
  case (Some c)
  then have "c \<in> set table" "c_code c = code" by (auto dest: find_key_Some)
  with Some assms show ?thesis
    using scalar_filter_unique [OF assms, of code]
    by (auto simp: get_or_create_country_def country_resolved_def)
qed

lemma select_by_name_date:
  "movies_unique db \<Longrightarrow>
     scalar_one_or_none (select_movie_by_name_date name date db) =
       Inr (find (\<lambda>m. (m_name m, m_date m) = (Some name, Some date)) (db_movies db))"
  using scalar_filter_unique [of "\<lambda>m. (m_name m, m_date m)" "db_movies db" "(Some name, Some date)"]
  by (simp add: movies_unique_def select_movie_by_name_date_def)

lemma create_movie_conflict:
  assumes "movies_unique db"
    and "m \<in> set (db_movies db)" "m_name m = Some (cr_name p)" "m_date m = Some (cr_date p)"
  shows "create_movie p db = (Inl (Conflict (cr_name p) (cr_date p)), db)"
proof -
  have "(Some (cr_name p), Some (cr_date p)) \<in> (\<lambda>m. (m_name m, m_date m)) ` set (db_movies db)"
    using assms(2-4) by force
  then obtain x where "find (\<lambda>m. (m_name m, m_date m) = (Some (cr_name p), Some (cr_date p))) (db_movies db) = Some x"
    using find_key_None [of "\<lambda>m. (m_name m, m_date m)" "(Some (cr_name p), Some (cr_date p))" "db_movies db"]
    by (cases "find (\<lambda>m. (m_name m, m_date m) = (Some (cr_name p), Some (cr_date p))) (db_movies db)") auto
  then show ?thesis
    using select_by_name_date [OF assms(1), of "cr_name p" "cr_date p"]
    by (simp add: create_movie_def)
qed

lemma create_movie_run:
  assumes look: "lookups_unique db"
    and none: "scalar_one_or_none (select_movie_by_name_date (cr_name p) (cr_date p) db) = Inr None"
  shows "\<exists>country countries' genres genres' actors actors' languages languages'.
           country_resolved (db_countries db) countries' (cr_country p) country \<and>
           names_resolved (db_genres db) genres' (cr_genres p) genres \<and>
           names_resolved (db_actors db) actors' (cr_actors p) actors \<and>
           names_resolved (db_languages db) languages' (cr_languages p) languages \<and>
           create_movie p db =
             (MovieDetailSchema_model_validate (new_movie db p country genres actors languages),
              \<lparr>db_movies = db_movies db @ [new_movie db p country genres actors languages],
               db_countries = countries', db_genres = genres', db_actors = actors',
               db_languages = languages'\<rparr>)"
proof -
  from look obtain country countries' where
    c: "get_or_create_country (db_countries db) (cr_country p) = Inr (country, countries')"
       "country_resolved (db_countries db) countries' (cr_country p) country"
    using get_or_create_country_ok [of "db_countries db" "cr_country p"]
    by (auto simp: lookups_unique_def)
  from look obtain genres genres' where
    g: "resolve_names (db_genres db) (cr_genres p) = Inr (genres, genres')"
       "names_resolved (db_genres db) genres' (cr_genres p) genres"
    using resolve_names_ok [of "db_genres db" "cr_genres p"] by (auto simp: lookups_unique_def)
  from look obtain actors actors' where
    a: "resolve_names (db_actors db) (cr_actors p) = Inr (actors, actors')"
       "names_resolved (db_actors db) actors' (cr_actors p) actors"
    using resolve_names_ok [of "db_actors db" "cr_actors p"] by (auto simp: lookups_unique_def)
  from look obtain languages languages' where
    l: "resolve_names (db_languages db) (cr_languages p) = Inr (languages, languages')"
       "names_resolved (db_languages db) languages' (cr_languages p) languages"
    using resolve_names_ok [of "db_languages db" "cr_languages p"] by (auto simp: lookups_unique_def)
  have "create_movie p db =
      (MovieDetailSchema_model_validate (new_movie db p country genres actors languages),
       \<lparr>db_movies = db_movies db @ [new_movie db p country genres actors languages],
        db_countries = countries', db_genres = genres', db_actors = actors',
        db_languages = languages'\<rparr>)"
    by (simp add: create_movie_def none c(1) g(1) a(1) l(1) new_movie_def Let_def)
  with c(2) g(2) a(2) l(2) show ?thesis by blast
qed

lemma no_match_none:
  assumes uniq: "movies_unique db"
    and fresh: "\<not> (\<exists>m \<in> set (db_movies db). m_name m = Some name \<and> m_date m = Some date)"
  shows "scalar_one_or_none (select_movie_by_name_date name date db) = Inr None"
proof -
  have "(Some name, Some date) \<notin> (\<lambda>m. (m_name m, m_date m)) ` set (db_movies db)"
    using fresh by auto
  then show ?thesis
    using select_by_name_date [OF uniq, of name date]
      find_key_None [of "\<lambda>m. (m_name m, m_date m)" "(Some name, Some date)" "db_movies db"]
    by simp
qed

lemma create_success_none:
  assumes "create_movie p db = (Inr detail, db')"
  shows "scalar_one_or_none (select_movie_by_name_date (cr_name p) (cr_date p) db) = Inr None"
  using assms by (auto simp: create_movie_def split: sum.splits option.splits)

lemma validated_payload:
  "MovieCreateSchema_validate today p = Inr q \<Longrightarrow>
     q = p \<and> 0 \<le> cr_score p \<and> cr_score p \<le> 100 \<and> 0 \<le> cr_budget p \<and> 0 \<le> cr_revenue p"
  by (auto simp: MovieCreateSchema_validate_def create_field_errors_def split: if_splits)

lemma new_movie_detail:
  assumes "0 \<le> cr_score p" "cr_score p \<le> 100" "0 \<le> cr_budget p" "0 \<le> cr_revenue p"
  shows "MovieDetailSchema_model_validate (new_movie db p country genres actors languages) =
     Inr \<lparr>d_name = cr_name p, d_date = cr_date p, d_score = cr_score p,
          d_overview = cr_overview p, d_status = cr_status p, d_budget = cr_budget p,
          d_revenue = cr_revenue p, d_id = next_id (map m_id (db_movies db)),
          d_country = CountrySchema_of country,
          d_languages = map NamedSchema_of languages,
          d_genres = map NamedSchema_of genres,
          d_actors = map NamedSchema_of actors\<rparr>"
  using assms by (simp add: MovieDetailSchema_model_validate_def new_movie_def)

lemma model_validate_detail:
  "MovieDetailSchema_model_validate m = Inr detail \<Longrightarrow>
     d_id detail = m_id m \<and> m_name m = Some (d_name detail) \<and> m_date m = Some (d_date detail) \<and>
     d_country detail = CountrySchema_of (m_country m) \<and>
     d_genres detail = map NamedSchema_of (m_genres m) \<and>
     d_actors detail = map NamedSchema_of (m_actors m) \<and>
     d_languages detail = map NamedSchema_of (m_languages m)"
  by (auto simp: MovieDetailSchema_model_validate_def split: option.splits if_splits)

text \<open>
  Claim C3. In a state where (name, date) pairs and lookup keys are unique, for every
  create payload (a validated \<^verbatim>\<open>MovieCreateSchema\<close>), the create operation fails
  with Conflict if and only if a movie with the payload's name and date exists; then the
  state is unchanged. Otherwise (so also when only the name, or only the date, is that of
  an existing movie) it succeeds: the movie is added and returned.
\<close>

theorem create_conflict_iff:
  assumes uniq: "movies_unique db" and look: "lookups_unique db"
    and valid: "MovieCreateSchema_validate today p = Inr p"
  shows "((\<exists>n d. fst (create_movie p db) = Inl (Conflict n d)) \<longleftrightarrow>
            (\<exists>m \<in> set (db_movies db). m_name m = Some (cr_name p) \<and> m_date m = Some (cr_date p))) \<and>
         ((\<exists>m \<in> set (db_movies db). m_name m = Some (cr_name p) \<and> m_date m = Some (cr_date p)) \<longrightarrow>
            create_movie p db = (Inl (Conflict (cr_name p) (cr_date p)), db)) \<and>
         (\<not> (\<exists>m \<in> set (db_movies db). m_name m = Some (cr_name p) \<and> m_date m = Some (cr_date p)) \<longrightarrow>
            (\<exists>detail db' movie. create_movie p db = (Inr detail, db') \<and>
               db_movies db' = db_movies db @ [movie] \<and>
               m_name movie = Some (cr_name p) \<and> m_date movie = Some (cr_date p) \<and>
               d_id detail = m_id movie \<and> d_name detail = cr_name p \<and> d_date detail = cr_date p))"
proof (cases "\<exists>m \<in> set (db_movies db). m_name m = Some (cr_name p) \<and> m_date m = Some (cr_date p)")
  case True
  then have "create_movie p db = (Inl (Conflict (cr_name p) (cr_date p)), db)"
    using create_movie_conflict [OF uniq] by blast
  with True show ?thesis by simp
next
  case False
  have none: "scalar_one_or_none (select_movie_by_name_date (cr_name p) (cr_date p) db) = Inr None"
    using uniq False by (rule no_match_none)
  from create_movie_run [OF look none]
  obtain country countries' genres genres' actors actors' languages languages' where
    run: "create_movie p db =
             (MovieDetailSchema_model_validate (new_movie db p country genres actors languages),
              \<lparr>db_movies = db_movies db @ [new_movie db p country genres actors languages],
               db_countries = countries', db_genres = genres', db_actors = actors',
               db_languages = languages'\<rparr>)"
    by blast
  have b: "0 \<le> cr_score p" "cr_score p \<le> 100" "0 \<le> cr_budget p" "0 \<le> cr_revenue p"
    using validated_payload [OF valid] by simp_all
  note d = new_movie_detail [OF b, of db country genres actors languages]
  have "\<exists>detail db' movie. create_movie p db = (Inr detail, db') \<and>
               db_movies db' = db_movies db @ [movie] \<and>
               m_name movie = Some (cr_name p) \<and> m_date movie = Some (cr_date p) \<and>
               d_id detail = m_id movie \<and> d_name detail = cr_name p \<and> d_date detail = cr_date p"
    unfolding run d by (simp add: new_movie_def)
  moreover have "\<not> (\<exists>n d. fst (create_movie p db) = Inl (Conflict n d))"
    unfolding run d by simp
  ultimately show ?thesis using False by blast
qed

lemma distinct_key_eq:
  "distinct (map f xs) \<Longrightarrow> x \<in> set xs \<Longrightarrow> y \<in> set xs \<Longrightarrow> f x = f y \<Longrightarrow> x = y"
  by (auto simp: distinct_map dest: inj_onD)

lemma names_resolved_known:
  assumes r: "names_resolved old new names objs" and k: "set names \<subseteq> set (map n_name old)"
  shows "new = old"
proof -
  from r k have "set (map n_name (drop (length old) new)) = {}"
    by (auto simp: names_resolved_def)
  then have "drop (length old) new = []" by simp
  moreover from r have "take (length old) new = old" by (simp add: names_resolved_def)
  ultimately show ?thesis by (metis append_Nil2 append_take_drop_id)
qed

lemma names_resolved_covers:
  "names_resolved old new names objs \<Longrightarrow> set names \<subseteq> set (map n_name new)"
  by (fastforce simp: names_resolved_def)

lemma create_lookups:
  assumes look: "lookups_unique db" and run: "create_movie p db = (Inr detail, db')"
  shows "\<exists>movie. db_movies db' = db_movies db @ [movie] \<and>
           country_resolved (db_countries db) (db_countries db') (cr_country p) (m_country movie) \<and>
           names_resolved (db_genres db) (db_genres db') (cr_genres p) (m_genres movie) \<and>
           names_resolved (db_actors db) (db_actors db') (cr_actors p) (m_actors movie) \<and>
           names_resolved (db_languages db) (db_languages db') (cr_languages p) (m_languages movie) \<and>
           d_country detail = CountrySchema_of (m_country movie) \<and>
           d_genres detail = map NamedSchema_of (m_genres movie) \<and>
           d_actors detail = map NamedSchema_of (m_actors movie) \<and>
           d_languages detail = map NamedSchema_of (m_languages movie)"
proof -
  from create_movie_run [OF look create_success_none [OF run]]
  obtain country countries' genres genres' actors actors' languages languages' where
    res: "country_resolved (db_countries db) countries' (cr_country p) country"
         "names_resolved (db_genres db) genres' (cr_genres p) genres"
         "names_resolved (db_actors db) actors' (cr_actors p) actors"
         "names_resolved (db_languages db) languages' (cr_languages p) languages"
    and eq: "create_movie p db =
             (MovieDetailSchema_model_validate (new_movie db p country genres actors languages),
              \<lparr>db_movies = db_movies db @ [new_movie db p country genres actors languages],
               db_countries = countries', db_genres = genres', db_actors = actors',
               db_languages = languages'\<rparr>)"
    by blast
  let ?m = "new_movie db p country genres actors languages"
  from run eq have v: "MovieDetailSchema_model_validate ?m = Inr detail"
    and db': "db' = \<lparr>db_movies = db_movies db @ [?m],
               db_countries = countries', db_genres = genres', db_actors = actors',
               db_languages = languages'\<rparr>" by simp_all
  have sel: "m_country ?m = country" "m_genres ?m = genres" "m_actors ?m = actors"
    "m_languages ?m = languages" by (simp_all add: new_movie_def)
  show ?thesis
    using res model_validate_detail [OF v] sel
    by (intro exI [of _ ?m]) (simp add: db')
qed

lemma create_keeps_unique:
  assumes look: "lookups_unique db" and run: "create_movie p db = (Inr detail, db')"
  shows "lookups_unique db'"
  using create_lookups [OF look run]
  by (auto simp: lookups_unique_def country_resolved_def names_resolved_def)

lemma create_twice:
  assumes look: "lookups_unique db" and run: "create_movie p db = (Inr detail, db')"
    and run2: "create_movie p2 db' = (Inr detail2, db'')"
  shows "(cr_country p2 = cr_country p \<longrightarrow>
            db_countries db'' = db_countries db' \<and> d_country detail2 = d_country detail) \<and>
         (set (cr_genres p2) \<subseteq> set (cr_genres p) \<longrightarrow> db_genres db'' = db_genres db') \<and>
         (set (cr_actors p2) \<subseteq> set (cr_actors p) \<longrightarrow> db_actors db'' = db_actors db') \<and>
         (set (cr_languages p2) \<subseteq> set (cr_languages p) \<longrightarrow>
            db_languages db'' = db_languages db')"
proof -
  have look': "lookups_unique db'" using look run by (rule create_keeps_unique)
  from create_lookups [OF look run] obtain movie where
    mv1: "db_movies db' = db_movies db @ [movie]" and
    c1: "country_resolved (db_countries db) (db_countries db') (cr_country p) (m_country movie)"
    and g1: "names_resolved (db_genres db) (db_genres db') (cr_genres p) (m_genres movie)"
    and a1: "names_resolved (db_actors db) (db_actors db') (cr_actors p) (m_actors movie)"
    and l1: "names_resolved (db_languages db) (db_languages db') (cr_languages p) (m_languages movie)"
    and d1: "d_country detail = CountrySchema_of (m_country movie)"
    by (elim exE conjE)
  from create_lookups [OF look' run2] obtain movie2 where
    mv2: "db_movies db'' = db_movies db' @ [movie2]" and
    c2: "country_resolved (db_countries db') (db_countries db'') (cr_country p2) (m_country movie2)"
    and g2: "names_resolved (db_genres db') (db_genres db'') (cr_genres p2) (m_genres movie2)"
    and a2: "names_resolved (db_actors db') (db_actors db'') (cr_actors p2) (m_actors movie2)"
    and l2: "names_resolved (db_languages db') (db_languages db'') (cr_languages p2) (m_languages movie2)"
    and d2: "d_country detail2 = CountrySchema_of (m_country movie2)"
    by (elim exE conjE)
  have country: "db_countries db'' = db_countries db' \<and> d_country detail2 = d_country detail"
    if same: "cr_country p2 = cr_country p"
  proof -
    from c1 have in1: "m_country movie \<in> set (db_countries db')"
        "c_code (m_country movie) = cr_country p"
      and dist: "distinct (map c_code (db_countries db'))"
      unfolding country_resolved_def by blast+
    then have "cr_country p2 \<in> set (map c_code (db_countries db'))" using same by force
    with c2 have keep: "db_countries db'' = db_countries db'"
      unfolding country_resolved_def by simp
    from c2 have in2: "m_country movie2 \<in> set (db_countries db')"
        "c_code (m_country movie2) = cr_country p2"
      unfolding country_resolved_def keep by blast+
    have "m_country movie2 = m_country movie"
      using dist in2(1) in1(1) by (rule distinct_key_eq) (simp add: in1 in2 same)
    with keep show ?thesis by (simp add: d1 d2)
  qed
  have known: "new = db_t"
    if "names_resolved old db_t names objs" "names_resolved db_t new names2 objs2"
      "set names2 \<subseteq> set names"
    for old db_t new :: "NamedModel list" and names names2 objs objs2
  proof -
    have "set names2 \<subseteq> set (map n_name db_t)"
      using names_resolved_covers [OF that(1)] that(3) by blast
    with that(2) show ?thesis by (rule names_resolved_known)
  qed
  show ?thesis using country known [OF g1 g2] known [OF a1 a2] known [OF l1 l2] by blast
qed

text \<open>
  Claim C4. When lookup keys are unique and a create succeeds, the country of the new
  movie is the row with the payload's code: the existing one, or else one new row with that
  code and a null name; each genre, actor and language of the movie is the row with that
  name, and the rows added to a table are one for each name that had none. Codes and names
  stay unique. A second create with the same code finds the tables of countries unchanged
  and gets the same country, and one with names among the first's adds no row.
\<close>

theorem create_resolves_lookups:
  assumes look: "lookups_unique db" and run: "create_movie p db = (Inr detail, db')"
  shows "(\<exists>movie. db_movies db' = db_movies db @ [movie] \<and>
           country_resolved (db_countries db) (db_countries db') (cr_country p) (m_country movie) \<and>
           names_resolved (db_genres db) (db_genres db') (cr_genres p) (m_genres movie) \<and>
           names_resolved (db_actors db) (db_actors db') (cr_actors p) (m_actors movie) \<and>
           names_resolved (db_languages db) (db_languages db') (cr_languages p) (m_languages movie) \<and>
           d_country detail = CountrySchema_of (m_country movie) \<and>
           d_genres detail = map NamedSchema_of (m_genres movie) \<and>
           d_actors detail = map NamedSchema_of (m_actors movie) \<and>
           d_languages detail = map NamedSchema_of (m_languages movie)) \<and>
         lookups_unique db' \<and>
         (\<forall>p2 detail2 db''. create_movie p2 db' = (Inr detail2, db'') \<longrightarrow>
            (cr_country p2 = cr_country p \<longrightarrow>
               db_countries db'' = db_countries db' \<and> d_country detail2 = d_country detail) \<and>
            (set (cr_genres p2) \<subseteq> set (cr_genres p) \<longrightarrow> db_genres db'' = db_genres db') \<and>
            (set (cr_actors p2) \<subseteq> set (cr_actors p) \<longrightarrow> db_actors db'' = db_actors db') \<and>
            (set (cr_languages p2) \<subseteq> set (cr_languages p) \<longrightarrow>
               db_languages db'' = db_languages db'))"
proof (intro conjI allI impI)
  show "\<exists>movie. db_movies db' = db_movies db @ [movie] \<and>
           country_resolved (db_countries db) (db_countries db') (cr_country p) (m_country movie) \<and>
           names_resolved (db_genres db) (db_genres db') (cr_genres p) (m_genres movie) \<and>
           names_resolved (db_actors db) (db_actors db') (cr_actors p) (m_actors movie) \<and>
           names_resolved (db_languages db) (db_languages db') (cr_languages p) (m_languages movie) \<and>
           d_country detail = CountrySchema_of (m_country movie) \<and>
           d_genres detail = map NamedSchema_of (m_genres movie) \<and>
           d_actors detail = map NamedSchema_of (m_actors movie) \<and>
           d_languages detail = map NamedSchema_of (m_languages movie)"
    using look run by (rule create_lookups)
  show "lookups_unique db'" using look run by (rule create_keeps_unique)
qed (use create_twice [OF look run] in blast)+

text \<open>
  On the small catalog: a payload with a new country, a genre named twice and a language.
\<close>

lemma sample_create:
  "create_movie sample_payload sample_db =
     (Inr \<lparr>d_name = ''A'', d_date = 11, d_score = 70, d_overview = ''again'', d_status = (),
           d_budget = 5, d_revenue = 0, d_id = 4,
           d_country = \<lparr>cs_id = 2, cs_name = None, cs_code = ''FR''\<rparr>,
           d_languages = [\<lparr>ns_id = 1, ns_name = ''fr''\<rparr>],
           d_genres = [\<lparr>ns_id = 1, ns_name = ''Drama''\<rparr>, \<lparr>ns_id = 1, ns_name = ''Drama''\<rparr>],
           d_actors = []\<rparr>,
      \<lparr>db_movies = db_movies sample_db @
         [\<lparr>m_id = 4, m_name = Some ''A'', m_date = Some 11, m_score = Some 70,
           m_overview = Some ''again'', m_status = Some (), m_budget = Some 5, m_revenue = Some 0,
           m_country = \<lparr>c_id = 2, c_code = ''FR'', c_name = None\<rparr>,
           m_genres = [\<lparr>n_id = 1, n_name = ''Drama''\<rparr>, \<lparr>n_id = 1, n_name = ''Drama''\<rparr>],
           m_actors = [], m_languages = [\<lparr>n_id = 1, n_name = ''fr''\<rparr>]\<rparr>],
       db_countries = [sample_country, \<lparr>c_id = 2, c_code = ''FR'', c_name = None\<rparr>],
       db_genres = [\<lparr>n_id = 1, n_name = ''Drama''\<rparr>],
       db_actors = [],
       db_languages = [\<lparr>n_id = 1, n_name = ''fr''\<rparr>]\<rparr>)"
  by (simp add: create_movie_def sample_payload_def sample_db_def sample_movie_def
      sample_country_def select_movie_by_name_date_def scalar_one_or_none_def
      get_or_create_country_def get_or_create_named_def next_id_def Let_def
      MovieDetailSchema_model_validate_def CountrySchema_of_def NamedSchema_of_def)

lemma sample_db_unique: "movies_unique sample_db" "lookups_unique sample_db"
  by (simp_all add: movies_unique_def lookups_unique_def sample_db_def sample_movie_def)

lemma sample_payload_valid: "MovieCreateSchema_validate 0 sample_payload = Inr sample_payload"
  by (simp add: MovieCreateSchema_validate_def create_field_errors_def sample_payload_def
      date_not_too_far_def country_alpha3_def fullmatch_country_def is_upper_letter_def)

text \<open>
  The small catalog holds a movie \<open>A\<close> of date 10: the payload of that name and date
  conflicts, the payload of that name and date 11 is created.
\<close>

theorem create_conflict_iff_witness:
  "create_movie (sample_payload\<lparr>cr_date := 10\<rparr>) sample_db = (Inl (Conflict ''A'' 10), sample_db) \<and>
   (\<exists>detail db' movie. create_movie sample_payload sample_db = (Inr detail, db') \<and>
      db_movies db' = db_movies sample_db @ [movie] \<and>
      m_name movie = Some ''A'' \<and> m_date movie = Some 11 \<and>
      d_id detail = m_id movie \<and> d_name detail = ''A'' \<and> d_date detail = 11)"
proof -
  have v: "MovieCreateSchema_validate 0 (sample_payload\<lparr>cr_date := 10\<rparr>) = Inr (sample_payload\<lparr>cr_date := 10\<rparr>)"
    by (simp add: MovieCreateSchema_validate_def create_field_errors_def sample_payload_def
      date_not_too_far_def country_alpha3_def fullmatch_country_def is_upper_letter_def)
  have dup: "\<exists>m \<in> set (db_movies sample_db).
      m_name m = Some (cr_name (sample_payload\<lparr>cr_date := 10\<rparr>)) \<and>
      m_date m = Some (cr_date (sample_payload\<lparr>cr_date := 10\<rparr>))"
    by (simp add: sample_db_def sample_movie_def sample_payload_def)
  have fresh: "\<not> (\<exists>m \<in> set (db_movies sample_db).
      m_name m = Some (cr_name sample_payload) \<and> m_date m = Some (cr_date sample_payload))"
    by (simp add: sample_db_def sample_movie_def sample_payload_def)
  have n: "cr_name sample_payload = ''A''" "cr_date sample_payload = 11"
    by (simp_all add: sample_payload_def)
  from create_conflict_iff [OF sample_db_unique v] dup
  have 1: "create_movie (sample_payload\<lparr>cr_date := 10\<rparr>) sample_db = (Inl (Conflict ''A'' 10), sample_db)"
    by (simp add: n)
  from create_conflict_iff [OF sample_db_unique sample_payload_valid] fresh
  have 2: "\<exists>detail db' movie. create_movie sample_payload sample_db = (Inr detail, db') \<and>
      db_movies db' = db_movies sample_db @ [movie] \<and>
      m_name movie = Some ''A'' \<and> m_date movie = Some 11 \<and>
      d_id detail = m_id movie \<and> d_name detail = ''A'' \<and> d_date detail = 11"
    unfolding n by blast
  from 1 2 show ?thesis by blast
qed

text \<open>
  The payload creates country \<open>FR\<close> and one genre row; a second payload with the same
  country and names adds no lookup row and gets the same country.
\<close>

theorem create_resolves_lookups_witness:
  "\<exists>detail db' detail2 db''.
     create_movie sample_payload sample_db = (Inr detail, db') \<and>
     create_movie (sample_payload\<lparr>cr_name := ''Z''\<rparr>) db' = (Inr detail2, db'') \<and>
     db_countries db' = [sample_country, \<lparr>c_id = 2, c_code = ''FR'', c_name = None\<rparr>] \<and>
     db_genres db' = [\<lparr>n_id = 1, n_name = ''Drama''\<rparr>] \<and>
     lookups_unique db' \<and>
     db_countries db'' = db_countries db' \<and> db_genres db'' = db_genres db' \<and>
     db_actors db'' = db_actors db' \<and> db_languages db'' = db_languages db' \<and>
     d_country detail2 = d_country detail"
proof -
  obtain detail db' where run: "create_movie sample_payload sample_db = (Inr detail, db')"
    and tabs: "db_countries db' = [sample_country, \<lparr>c_id = 2, c_code = ''FR'', c_name = None\<rparr>]"
       "db_genres db' = [\<lparr>n_id = 1, n_name = ''Drama''\<rparr>]"
    using sample_create by simp
  have "\<exists>detail2 db''. create_movie (sample_payload\<lparr>cr_name := ''Z''\<rparr>) db' = (Inr detail2, db'')"
    using run unfolding sample_create
    by (auto simp add: create_movie_def sample_payload_def sample_db_def sample_movie_def
      sample_country_def select_movie_by_name_date_def scalar_one_or_none_def
      get_or_create_country_def get_or_create_named_def next_id_def Let_def
      MovieDetailSchema_model_validate_def)
  then obtain detail2 db'' where
    run2: "create_movie (sample_payload\<lparr>cr_name := ''Z''\<rparr>) db' = (Inr detail2, db'')" by blast
  have same: "cr_country (sample_payload\<lparr>cr_name := ''Z''\<rparr>) = cr_country sample_payload"
    "cr_genres (sample_payload\<lparr>cr_name := ''Z''\<rparr>) = cr_genres sample_payload"
    "cr_actors (sample_payload\<lparr>cr_name := ''Z''\<rparr>) = cr_actors sample_payload"
    "cr_languages (sample_payload\<lparr>cr_name := ''Z''\<rparr>) = cr_languages sample_payload"
    by simp_all
  from create_resolves_lookups [OF sample_db_unique(2) run] run2 same
  have "lookups_unique db' \<and>
     db_countries db'' = db_countries db' \<and> db_genres db'' = db_genres db' \<and>
     db_actors db'' = db_actors db' \<and> db_languages db'' = db_languages db' \<and>
     d_country detail2 = d_country detail"
    by (metis subset_refl)
  with run run2 tabs show ?thesis by blast
qed

section \<open>The delete handler\<close>

lemma select_by_id:
  "distinct (map m_id (db_movies db)) \<Longrightarrow>
     scalar_one_or_none (select_movie_by_id mid db) = Inr (find (\<lambda>m. m_id m = mid) (db_movies db))"
  unfolding select_movie_by_id_def by (rule scalar_filter_unique)

text \<open>
  Claim C7. With ids a primary key, the delete operation fails with NotFound exactly when
  no movie has the id, and then leaves the state as it was; otherwise it returns no
  content, the state loses the movie with that id and nothing else, and a detail fetch of
  the id then fails with NotFound.
\<close>

theorem delete_movie_spec:
  assumes pk: "distinct (map m_id (db_movies db))"
  shows "((\<exists>detail. fst (delete_movie mid db) = Inl (NotFound detail)) \<longleftrightarrow>
            mid \<notin> m_id ` set (db_movies db)) \<and>
         (mid \<notin> m_id ` set (db_movies db) \<longrightarrow>
            delete_movie mid db = (Inl (NotFound not_found_detail), db)) \<and>
         (mid \<in> m_id ` set (db_movies db) \<longrightarrow>
            fst (delete_movie mid db) = Inr () \<and>
            snd (delete_movie mid db) =
              db\<lparr>db_movies := filter (\<lambda>m. m_id m \<noteq> mid) (db_movies db)\<rparr> \<and>
            get_movie mid (snd (delete_movie mid db)) = Inl (NotFound not_found_detail))"
proof (cases "find (\<lambda>m. m_id m = mid) (db_movies db)")
  case None
  then have "mid \<notin> m_id ` set (db_movies db)" by (simp add: find_key_None)
  with None show ?thesis by (simp add: delete_movie_def select_by_id [OF pk])
next
  case (Some movie)
  then have m: "movie \<in> set (db_movies db)" "m_id movie = mid" by (auto dest: find_key_Some)
  then have "mid \<in> m_id ` set (db_movies db)" by auto
  moreover have "get_movie mid (db\<lparr>db_movies := filter (\<lambda>m. m_id m \<noteq> mid) (db_movies db)\<rparr>)
      = Inl (NotFound not_found_detail)"
    by (simp add: get_movie_def select_movie_by_id_def scalar_one_or_none_def)
  ultimately show ?thesis using Some m by (simp add: delete_movie_def select_by_id [OF pk])
qed

text \<open>Deleting movie 2 of the small catalog, and an id that is not there.\<close>

theorem delete_movie_spec_witness:
  "delete_movie 2 sample_db =
     (Inr (), sample_db\<lparr>db_movies := [sample_movie 1 ''A'' 10, sample_movie 3 ''C'' 30]\<rparr>) \<and>
   get_movie 2 (snd (delete_movie 2 sample_db)) = Inl (NotFound not_found_detail) \<and>
   delete_movie 7 sample_db = (Inl (NotFound not_found_detail), sample_db)"
proof -
  have pk: "distinct (map m_id (db_movies sample_db))"
    by (simp add: sample_db_def sample_movie_def)
  have a: "2 \<in> m_id ` set (db_movies sample_db)" "7 \<notin> m_id ` set (db_movies sample_db)"
    by (simp_all add: sample_db_def sample_movie_def)
  have f: "filter (\<lambda>m. m_id m \<noteq> 2) (db_movies sample_db) = [sample_movie 1 ''A'' 10, sample_movie 3 ''C'' 30]"
    by (simp add: sample_db_def sample_movie_def)
  from delete_movie_spec [OF pk, of 2] a(1) f
  have d2: "delete_movie 2 sample_db =
      (Inr (), sample_db\<lparr>db_movies := [sample_movie 1 ''A'' 10, sample_movie 3 ''C'' 30]\<rparr>)"
    by (simp add: prod_eq_iff)
  from delete_movie_spec [OF pk, of 2] a(1)
  have g2: "get_movie 2 (snd (delete_movie 2 sample_db)) = Inl (NotFound not_found_detail)"
    by blast
  from delete_movie_spec [OF pk, of 7] a(2)
  have d7: "delete_movie 7 sample_db = (Inl (NotFound not_found_detail), sample_db)"
    by simp
  show ?thesis using d2 g2 d7 by simp
qed


section \<open>The update handler\<close>

text \<open>The loop of \<^verbatim>\<open>setattr\<close> over the dumped items is the partial update.\<close>

lemma fold_setattr_dump:
  "fold (\<lambda>item m. setattr m item) (model_dump_exclude_unset data) m = patched data m"
  by (cases "u_name data"; cases "u_date data"; cases "u_score data"; cases "u_overview data";
      cases "u_status data"; cases "u_budget data"; cases "u_revenue data")
     (simp_all add: model_dump_exclude_unset_def dump_def patched_def applied_def)

text \<open>The one row a successful query by id returns is the only row with the id.\<close>

lemma scalar_some_only:
  assumes "scalar_one_or_none (filter P xs) = Inr (Some x)"
  shows "x \<in> set xs \<and> P x \<and> (\<forall>y \<in> set xs. P y \<longrightarrow> y = x)"
proof -
  from assms have eq: "filter P xs = [x]"
    by (auto simp: scalar_one_or_none_def split: list.splits)
  have "y = x" if "y \<in> set xs" "P y" for y
  proof -
    from that have "y \<in> set (filter P xs)" by simp
    then show ?thesis by (simp add: eq)
  qed
  moreover have "x \<in> set (filter P xs)" by (simp add: eq)
  ultimately show ?thesis by auto
qed

lemma update_movie_found:
  assumes "scalar_one_or_none (select_movie_by_id mid db) = Inr (Some m)"
  shows "update_movie mid data db =
     (Inr updated_detail,
      db\<lparr>db_movies := map (\<lambda>x. if x = m then patched data m else x) (db_movies db)\<rparr>)"
proof -
  note s = scalar_some_only [OF assms [unfolded select_movie_by_id_def]]
  from s have m1: "m \<in> set (db_movies db)" by (rule conjunct1)
  from s have m2: "m_id m = mid" by (rule conjunct2 [THEN conjunct1])
  from s have only: "\<forall>y \<in> set (db_movies db). m_id y = mid \<longrightarrow> y = m"
    by (rule conjunct2 [THEN conjunct2])
  define pm where "pm = patched data m"
  have same: "m_id x = m_id m \<longleftrightarrow> x = m" if "x \<in> set (db_movies db)" for x
    using that only m2 by blast
  have "map (\<lambda>x. if m_id x = m_id m then pm else x) (db_movies db) =
        map (\<lambda>x. if x = m then pm else x) (db_movies db)"
    by (rule map_cong [OF refl]) (simp only: same)
  then have "db\<lparr>db_movies := map (\<lambda>x. if m_id x = m_id m then pm else x) (db_movies db)\<rparr> =
        db\<lparr>db_movies := map (\<lambda>x. if x = m then pm else x) (db_movies db)\<rparr>"
    by (rule arg_cong)
  moreover have "update_movie mid data db =
      (Inr updated_detail,
       db\<lparr>db_movies := map (\<lambda>x. if m_id x = m_id m then pm else x) (db_movies db)\<rparr>)"
    unfolding pm_def update_movie_def Let_def fold_setattr_dump assms by simp
  ultimately show ?thesis unfolding pm_def by (simp only:)
qed

lemma update_movie_applies:
  assumes pk: "distinct (map m_id (db_movies db))"
    and m: "m \<in> set (db_movies db)"
  shows "update_movie (m_id m) data db =
     (Inr updated_detail,
      db\<lparr>db_movies := map (\<lambda>x. if x = m then patched data m else x) (db_movies db)\<rparr>)"
proof -
  obtain x where x: "find (\<lambda>x. m_id x = m_id m) (db_movies db) = Some x"
    using m find_key_None [of m_id "m_id m" "db_movies db"]
    by (cases "find (\<lambda>x. m_id x = m_id m) (db_movies db)") auto
  then have "x \<in> set (db_movies db)" "m_id x = m_id m" by (auto dest: find_key_Some)
  then have "x = m" using pk m by (auto intro: distinct_key_eq)
  with x have "scalar_one_or_none (select_movie_by_id (m_id m) db) = Inr (Some m)"
    using select_by_id [OF pk, of "m_id m"] by simp
  then show ?thesis by (rule update_movie_found)
qed

lemma get_movie_after_update:
  assumes pk: "distinct (map m_id (db_movies db))"
    and m: "m \<in> set (db_movies db)"
  shows "get_movie (m_id m)
           (db\<lparr>db_movies := map (\<lambda>x. if x = m then patched data m else x) (db_movies db)\<rparr>)
         = MovieDetailSchema_model_validate (patched data m)"
proof -
  define ms where "ms = map (\<lambda>x. if x = m then patched data m else x) (db_movies db)"
  have ids: "map m_id ms = map m_id (db_movies db)"
    unfolding ms_def by (simp add: patched_def)
  have pk': "distinct (map m_id ms)" using pk by (simp only: ids)
  have in': "patched data m \<in> set ms" unfolding ms_def using m by force
  have same: "m_id (patched data m) = m_id m" by (simp add: patched_def)
  have "find (\<lambda>x. m_id x = m_id m) ms = Some (patched data m)"
  proof (cases "find (\<lambda>x. m_id x = m_id m) ms")
    case None
    then have "m_id m \<notin> m_id ` set ms" by (simp add: find_key_None)
    moreover have "m_id m \<in> m_id ` set ms" using in' same by (metis imageI)
    ultimately show ?thesis by contradiction
  next
    case (Some y)
    then have y: "y \<in> set ms" "m_id y = m_id m"
      by (auto dest: find_key_Some)
    have "m_id y = m_id (patched data m)" using y(2) same by simp
    with pk' y(1) in' have "y = patched data m" by (rule distinct_key_eq)
    with Some show ?thesis by simp
  qed
  then have "scalar_one_or_none (filter (\<lambda>x. m_id x = m_id m) ms) = Inr (Some (patched data m))"
    using scalar_filter_unique [OF pk', of "m_id m"] by simp
  then have "get_movie (m_id m) (db\<lparr>db_movies := ms\<rparr>) =
      MovieDetailSchema_model_validate (patched data m)"
    by (simp add: get_movie_def select_movie_by_id_def)
  then show ?thesis by (simp only: ms_def)
qed

section \<open>Request validation\<close>

text \<open>
  A create payload is rejected exactly when one of its constraints fails: a name longer
  than 255 characters, a date after today + 365 days, a score outside \<open>[0, 100]\<close>, a
  negative budget or revenue, a country that is not two or three letters A to Z.
  Validation is a function of the payload and the date alone: no table is read or written.
\<close>

lemma create_validation_iff:
  "MovieCreateSchema_validate today p = Inl ValidationError \<longleftrightarrow>
     (255 < length (cr_name p) \<or> today + 365 < cr_date p \<or>
      cr_score p < 0 \<or> 100 < cr_score p \<or> cr_budget p < 0 \<or> cr_revenue p < 0 \<or>
      \<not> fullmatch_country (cr_country p))"
  by (auto simp: MovieCreateSchema_validate_def create_field_errors_def date_not_too_far_def
      country_alpha3_def)

lemma create_validation_total:
  "MovieCreateSchema_validate today p = Inl ValidationError \<or>
   MovieCreateSchema_validate today p = Inr p"
  by (simp add: MovieCreateSchema_validate_def)

text \<open>A date of exactly today + 365 days passes the date rule; today + 366 does not.\<close>

lemma create_date_boundary:
  "date_not_too_far today (today + 365) = Inr (today + 365)"
  "date_not_too_far today (today + 366) = Inl ValidationError"
  by (simp_all add: date_not_too_far_def)

text \<open>What an accepted PATCH body is.\<close>

lemma update_accepted_iff:
  "MovieUpdateSchema_validate today body = Inr data \<longleftrightarrow>
     (case ub_country body of Some (JStr s) \<Rightarrow> fullmatch_country (upper s)
        | Some JOther \<Rightarrow> False | _ \<Rightarrow> True) \<and>
     ub_date body = Unset \<and>
     field_ok (\<lambda>s. length s \<le> 255) (ub_name body) \<and>
     field_ok (\<lambda>s. 0 \<le> s \<and> s \<le> 100) (ub_score body) \<and>
     field_ok (\<lambda>b. 0 \<le> b) (ub_budget body) \<and>
     field_ok (\<lambda>r. 0 \<le> r) (ub_revenue body) \<and>
     data = \<lparr>u_name = ub_name body, u_date = ub_date body, u_score = ub_score body,
             u_overview = ub_overview body, u_status = ub_status body,
             u_budget = ub_budget body, u_revenue = ub_revenue body\<rparr>"
  by (cases "ub_date body")
    (auto simp: MovieUpdateSchema_validate_def validate_country_def update_field_errors_def
      validate_date_field_def date_not_too_far_update_def Let_def
      split: option.splits json.splits sum.splits error.splits if_splits)

text \<open>
  The update schema lets no date through: a supplied date is a validation error, and a
  supplied \<^verbatim>\<open>null\<close> makes the field validator raise.
\<close>

lemma update_date_rejected:
  assumes "ub_date body = Supplied (Some d)"
  shows "\<exists>e. MovieUpdateSchema_validate today body = Inl e"
proof (cases "MovieUpdateSchema_validate today body")
  case (Inl e)
  then show ?thesis by blast
next
  case (Inr data)
  then have "ub_date body = Unset" by (simp add: update_accepted_iff)
  with assms show ?thesis by simp
qed

lemma update_date_rejected_422:
  assumes "ub_date body = Supplied (Some d)" "ub_country body = None"
  shows "MovieUpdateSchema_validate today body = Inl ValidationError"
  using assms
  by (simp add: MovieUpdateSchema_validate_def update_field_errors_def validate_date_field_def
      validate_country_def)

lemma update_date_null_raises:
  assumes "ub_date body = Supplied None" "ub_country body = None"
  shows "MovieUpdateSchema_validate today body = Inl (Unhandled TypeError)"
  using assms
  by (simp add: MovieUpdateSchema_validate_def validate_date_field_def
      date_not_too_far_update_def validate_country_def)

section \<open>The update handler on accepted payloads\<close>

lemma applied_ok:
  assumes "f \<noteq> Supplied None" "field_ok P f" "case old of None \<Rightarrow> False | Some v \<Rightarrow> P v"
  shows "case applied f old of None \<Rightarrow> False | Some v \<Rightarrow> P v"
proof (cases f)
  case Unset
  with assms show ?thesis by (simp add: applied_def)
next
  case (Supplied v)
  with assms show ?thesis by (cases v) (simp_all add: applied_def field_ok_def)
qed

lemma applied_some:
  assumes "f \<noteq> Supplied None" "old \<noteq> None"
  shows "applied f old \<noteq> None"
proof (cases f)
  case Unset
  with assms show ?thesis by (simp add: applied_def)
next
  case (Supplied v)
  with assms show ?thesis by (simp add: applied_def)
qed

lemma patched_row_ok:
  assumes ok: "movie_row_ok m"
    and acc: "MovieUpdateSchema_validate today body = Inr data"
    and nn: "no_null data"
  shows "movie_row_ok (patched data m)"
proof -
  from acc have b: "u_date data = Unset"
      "field_ok (\<lambda>s. 0 \<le> s \<and> s \<le> 100) (u_score data)"
      "field_ok (\<lambda>b. 0 \<le> b) (u_budget data)"
      "field_ok (\<lambda>r. 0 \<le> r) (u_revenue data)"
    by (simp_all add: update_accepted_iff)
  from nn have n: "u_name data \<noteq> Supplied None" "u_score data \<noteq> Supplied None"
      "u_overview data \<noteq> Supplied None" "u_status data \<noteq> Supplied None"
      "u_budget data \<noteq> Supplied None" "u_revenue data \<noteq> Supplied None"
    by (simp_all add: no_null_def)
  from ok have o: "m_name m \<noteq> None" "m_date m \<noteq> None" "m_overview m \<noteq> None" "m_status m \<noteq> None"
      "case m_score m of None \<Rightarrow> False | Some s \<Rightarrow> 0 \<le> s \<and> s \<le> 100"
      "case m_budget m of None \<Rightarrow> False | Some b \<Rightarrow> 0 \<le> b"
      "case m_revenue m of None \<Rightarrow> False | Some v \<Rightarrow> 0 \<le> v"
    by (simp_all add: movie_row_ok_def)
  have "applied (u_name data) (m_name m) \<noteq> None" using n(1) o(1) by (rule applied_some)
  moreover have "applied (u_date data) (m_date m) \<noteq> None" using b(1) o(2) by (simp add: applied_def)
  moreover have "applied (u_overview data) (m_overview m) \<noteq> None" using n(3) o(3) by (rule applied_some)
  moreover have "applied (u_status data) (m_status m) \<noteq> None" using n(4) o(4) by (rule applied_some)
  moreover have "case applied (u_score data) (m_score m) of None \<Rightarrow> False | Some s \<Rightarrow> 0 \<le> s \<and> s \<le> 100"
    using n(2) b(2) o(5) by (rule applied_ok)
  moreover have "case applied (u_budget data) (m_budget m) of None \<Rightarrow> False | Some b \<Rightarrow> 0 \<le> b"
    using n(5) b(3) o(6) by (rule applied_ok)
  moreover have "case applied (u_revenue data) (m_revenue m) of None \<Rightarrow> False | Some v \<Rightarrow> 0 \<le> v"
    using n(6) b(4) o(7) by (rule applied_ok)
  ultimately show ?thesis by (simp add: movie_row_ok_def patched_def)
qed

text \<open>A row of the data model has a detail representation, which shows its values.\<close>

lemma row_ok_detail:
  assumes "movie_row_ok m"
  shows "\<exists>detail. MovieDetailSchema_model_validate m = Inr detail \<and>
           d_id detail = m_id m \<and>
           m_name m = Some (d_name detail) \<and> m_date m = Some (d_date detail) \<and>
           m_score m = Some (d_score detail) \<and> m_overview m = Some (d_overview detail) \<and>
           m_status m = Some (d_status detail) \<and> m_budget m = Some (d_budget detail) \<and>
           m_revenue m = Some (d_revenue detail) \<and>
           d_country detail = CountrySchema_of (m_country m) \<and>
           d_genres detail = map NamedSchema_of (m_genres m) \<and>
           d_actors detail = map NamedSchema_of (m_actors m) \<and>
           d_languages detail = map NamedSchema_of (m_languages m)"
proof -
  from assms obtain n d s ov st b rv where
    f: "m_name m = Some n" "m_date m = Some d" "m_score m = Some s" "m_overview m = Some ov"
       "m_status m = Some st" "m_budget m = Some b" "m_revenue m = Some rv"
    and r: "0 \<le> s" "s \<le> 100" "0 \<le> b" "0 \<le> rv"
    by (auto simp: movie_row_ok_def split: option.splits)
  show ?thesis by (simp add: MovieDetailSchema_model_validate_def f r)
qed

text \<open>
  Claim C6, amended. With ids a primary key, for every movie of the catalog that is a row
  of the data model and every PATCH body that validation accepts and that supplies no
  \<^verbatim>\<open>null\<close>, the update operation returns its confirmation and changes the state in
  that movie only: each scalar attribute supplied takes the supplied value, each one omitted
  keeps its value, and the id and the relations are as they were. A detail fetch of the
  movie then succeeds and shows those values and relations.
\<close>

theorem update_movie_frame:
  assumes pk: "distinct (map m_id (db_movies db))"
    and m: "m \<in> set (db_movies db)"
    and ok: "movie_row_ok m"
    and acc: "MovieUpdateSchema_validate today body = Inr data"
    and nn: "no_null data"
  shows "patch_movie today (m_id m) body db =
           (Inr updated_detail,
            db\<lparr>db_movies := map (\<lambda>x. if x = m then patched data m else x) (db_movies db)\<rparr>) \<and>
         (\<exists>detail. get_movie (m_id m) (snd (patch_movie today (m_id m) body db)) = Inr detail \<and>
            d_id detail = m_id m \<and>
            Some (d_name detail) = applied (u_name data) (m_name m) \<and>
            Some (d_date detail) = applied (u_date data) (m_date m) \<and>
            Some (d_score detail) = applied (u_score data) (m_score m) \<and>
            Some (d_overview detail) = applied (u_overview data) (m_overview m) \<and>
            Some (d_status detail) = applied (u_status data) (m_status m) \<and>
            Some (d_budget detail) = applied (u_budget data) (m_budget m) \<and>
            Some (d_revenue detail) = applied (u_revenue data) (m_revenue m) \<and>
            d_country detail = CountrySchema_of (m_country m) \<and>
            d_genres detail = map NamedSchema_of (m_genres m) \<and>
            d_actors detail = map NamedSchema_of (m_actors m) \<and>
            d_languages detail = map NamedSchema_of (m_languages m))"
proof -
  let ?db' = "db\<lparr>db_movies := map (\<lambda>x. if x = m then patched data m else x) (db_movies db)\<rparr>"
  have run: "patch_movie today (m_id m) body db = (Inr updated_detail, ?db')"
    using update_movie_applies [OF pk m, of data] acc by (simp add: patch_movie_def)
  have get: "get_movie (m_id m) ?db' = MovieDetailSchema_model_validate (patched data m)"
    using pk m by (rule get_movie_after_update)
  have "movie_row_ok (patched data m)" using ok acc nn by (rule patched_row_ok)
  from row_ok_detail [OF this] obtain detail where
    d: "MovieDetailSchema_model_validate (patched data m) = Inr detail"
    and v: "d_id detail = m_id (patched data m)"
       "m_name (patched data m) = Some (d_name detail)"
       "m_date (patched data m) = Some (d_date detail)"
       "m_score (patched data m) = Some (d_score detail)"
       "m_overview (patched data m) = Some (d_overview detail)"
       "m_status (patched data m) = Some (d_status detail)"
       "m_budget (patched data m) = Some (d_budget detail)"
       "m_revenue (patched data m) = Some (d_revenue detail)"
       "d_country detail = CountrySchema_of (m_country (patched data m))"
       "d_genres detail = map NamedSchema_of (m_genres (patched data m))"
       "d_actors detail = map NamedSchema_of (m_actors (patched data m))"
       "d_languages detail = map NamedSchema_of (m_languages (patched data m))"
    by (elim exE conjE)
  have sel: "m_id (patched data m) = m_id m"
    "m_name (patched data m) = applied (u_name data) (m_name m)"
    "m_date (patched data m) = applied (u_date data) (m_date m)"
    "m_score (patched data m) = applied (u_score data) (m_score m)"
    "m_overview (patched data m) = applied (u_overview data) (m_overview m)"
    "m_status (patched data m) = applied (u_status data) (m_status m)"
    "m_budget (patched data m) = applied (u_budget data) (m_budget m)"
    "m_revenue (patched data m) = applied (u_revenue data) (m_revenue m)"
    "m_country (patched data m) = m_country m"
    "m_genres (patched data m) = m_genres m"
    "m_actors (patched data m) = m_actors m"
    "m_languages (patched data m) = m_languages m"
    by (simp_all add: patched_def)
  show ?thesis
    unfolding run snd_conv get d
    using v unfolding sel by simp
qed

text \<open>On the small catalog: a PATCH of movie 2 that supplies only a score.\<close>

lemma sample_db_pk: "distinct (map m_id (db_movies sample_db))"
  by (simp add: sample_db_def sample_movie_def)

lemma sample_movie_2:
  "sample_movie 2 ''B'' 20 \<in> set (db_movies sample_db)" "movie_row_ok (sample_movie 2 ''B'' 20)"
  "m_id (sample_movie 2 ''B'' 20) = 2"
  by (simp_all add: sample_db_def sample_movie_def movie_row_ok_def)

theorem update_movie_frame_witness:
  "fst (patch_movie 0 2 score_body sample_db) = Inr updated_detail \<and>
   (\<exists>detail. get_movie 2 (snd (patch_movie 0 2 score_body sample_db)) = Inr detail \<and>
      d_score detail = 95 \<and> d_name detail = ''B'' \<and> d_date detail = 20 \<and>
      d_country detail = CountrySchema_of sample_country)"
proof -
  have acc: "MovieUpdateSchema_validate 0 score_body = Inr score_data"
    by (simp add: update_accepted_iff score_body_def empty_body_def score_data_def field_ok_def)
  have nn: "no_null score_data" by (simp add: no_null_def score_data_def)
  have old: "m_name (sample_movie 2 ''B'' 20) = Some ''B''"
    "m_date (sample_movie 2 ''B'' 20) = Some 20"
    "m_country (sample_movie 2 ''B'' 20) = sample_country"
    by (simp_all add: sample_movie_def)
  have new: "applied (u_score score_data) old_score = Some 95"
    "applied (u_name score_data) old_name = old_name"
    "applied (u_date score_data) old_date = old_date" for old_score old_name old_date
    by (simp_all add: applied_def score_data_def)
  from update_movie_frame [OF sample_db_pk sample_movie_2(1,2) acc nn]
  show ?thesis unfolding sample_movie_2(3) new old by auto
qed

text \<open>
  Claim C6 as stated, for every partial-update payload, fails where a payload supplies
  \<^verbatim>\<open>null\<close>: the body \<^verbatim>\<open>{"name": null}\<close> is accepted and applied to movie 2, and the
  detail fetch that follows does not show the new value but ends with an exception, since
  \<^verbatim>\<open>MovieDetailSchema\<close> requires a name.
\<close>

theorem update_null_breaks_detail:
  "MovieUpdateSchema_validate 0 (empty_body\<lparr>ub_name := Supplied None\<rparr>) =
     Inr \<lparr>u_name = Supplied None, u_date = Unset, u_score = Unset, u_overview = Unset,
          u_status = Unset, u_budget = Unset, u_revenue = Unset\<rparr> \<and>
   fst (patch_movie 0 2 (empty_body\<lparr>ub_name := Supplied None\<rparr>) sample_db) = Inr updated_detail \<and>
   get_movie 2 (snd (patch_movie 0 2 (empty_body\<lparr>ub_name := Supplied None\<rparr>) sample_db)) =
     Inl (Unhandled ResponseValidationError)"
proof -
  let ?data = "\<lparr>u_name = Supplied None, u_date = Unset, u_score = Unset, u_overview = Unset,
          u_status = Unset, u_budget = Unset, u_revenue = Unset\<rparr> :: unit MovieUpdateSchema"
  let ?m = "sample_movie 2 ''B'' 20"
  have acc: "MovieUpdateSchema_validate 0 (empty_body\<lparr>ub_name := Supplied None\<rparr>) = Inr ?data"
    by (simp add: update_accepted_iff empty_body_def field_ok_def)
  have run: "patch_movie 0 2 (empty_body\<lparr>ub_name := Supplied None\<rparr>) sample_db =
      (Inr updated_detail,
       sample_db\<lparr>db_movies := map (\<lambda>x. if x = ?m then patched ?data ?m else x) (db_movies sample_db)\<rparr>)"
    using update_movie_applies [OF sample_db_pk sample_movie_2(1), of ?data] acc
    by (simp add: patch_movie_def sample_movie_2(3))
  have get: "get_movie 2 (sample_db\<lparr>db_movies := map (\<lambda>x. if x = ?m then patched ?data ?m else x) (db_movies sample_db)\<rparr>)
      = MovieDetailSchema_model_validate (patched ?data ?m)"
    using get_movie_after_update [OF sample_db_pk sample_movie_2(1), of ?data]
    by (simp only: sample_movie_2(3))
  have "m_name (patched ?data ?m) = None" by (simp add: patched_def applied_def)
  then have bad: "MovieDetailSchema_model_validate (patched ?data ?m) = Inl (Unhandled ResponseValidationError)"
    by (simp add: MovieDetailSchema_model_validate_def)
  show ?thesis unfolding run by (simp only: acc fst_conv snd_conv get bad simp_thms)
qed

section \<open>The key \<^verbatim>\<open>country\<close> of a PATCH body\<close>

lemma patched_relations:
  "m_id (patched data m) = m_id m" "m_country (patched data m) = m_country m"
  "m_genres (patched data m) = m_genres m" "m_actors (patched data m) = m_actors m"
  "m_languages (patched data m) = m_languages m"
  by (simp_all add: patched_def)

text \<open>Whatever the outcome of the handler, no movie's country and no country row changes.\<close>

lemma update_movie_keeps_country:
  "map m_country (db_movies (snd (update_movie mid data db))) = map m_country (db_movies db) \<and>
   db_countries (snd (update_movie mid data db)) = db_countries db"
proof (cases "scalar_one_or_none (select_movie_by_id mid db)")
  case (Inl e)
  then show ?thesis by (simp add: update_movie_def)
next
  case (Inr found)
  show ?thesis
  proof (cases found)
    case None
    with Inr show ?thesis by (simp add: update_movie_def)
  next
    case (Some m)
    with Inr have "scalar_one_or_none (select_movie_by_id mid db) = Inr (Some m)" by simp
    note run = update_movie_found [OF this, of data]
    have "m_country (if x = m then patched data m else x) = m_country x" for x
      by (simp add: patched_relations)
    then have "map m_country (map (\<lambda>x. if x = m then patched data m else x) (db_movies db)) =
        map m_country (db_movies db)"
      by (simp only: map_map o_def map_ident)
    then show ?thesis unfolding run by simp
  qed
qed

lemma patch_movie_keeps_country:
  "map m_country (db_movies (snd (patch_movie today mid body db))) = map m_country (db_movies db) \<and>
   db_countries (snd (patch_movie today mid body db)) = db_countries db"
proof (cases "MovieUpdateSchema_validate today body")
  case (Inl e)
  then show ?thesis by (simp add: patch_movie_def)
next
  case (Inr data)
  then show ?thesis using update_movie_keeps_country [of mid data db] by (simp add: patch_movie_def)
qed

text \<open>
  Claim C9, amended. For every PATCH body whose key \<^verbatim>\<open>country\<close> holds a string, the
  model validator uppercases the string and rejects the request with a validation error
  when the result is not two or three letters A to Z, and otherwise puts the uppercased
  string back under the key. The key has no effect on the validated object, which is the
  one the body without the key gives; and whatever the request ends with, every movie has
  the country it had and the table of countries is as it was.
\<close>

theorem update_country_checked_and_dropped:
  assumes c: "ub_country body = Some (JStr s)"
  shows "validate_country body =
           (if fullmatch_country (upper s) then Inr (body\<lparr>ub_country := Some (JStr (upper s))\<rparr>)
            else Inl ValidationError) \<and>
         (\<not> fullmatch_country (upper s) \<longrightarrow>
            patch_movie today mid body db = (Inl ValidationError, db)) \<and>
         (\<forall>data. MovieUpdateSchema_validate today body = Inr data \<longrightarrow>
            MovieUpdateSchema_validate today (body\<lparr>ub_country := None\<rparr>) = Inr data) \<and>
         map m_country (db_movies (snd (patch_movie today mid body db))) =
           map m_country (db_movies db) \<and>
         db_countries (snd (patch_movie today mid body db)) = db_countries db"
proof -
  have 1: "validate_country body =
           (if fullmatch_country (upper s) then Inr (body\<lparr>ub_country := Some (JStr (upper s))\<rparr>)
            else Inl ValidationError)"
    using c by (simp add: validate_country_def Let_def)
  then have 2: "patch_movie today mid body db = (Inl ValidationError, db)"
    if "\<not> fullmatch_country (upper s)"
    using that by (simp add: patch_movie_def MovieUpdateSchema_validate_def)
  have 3: "MovieUpdateSchema_validate today (body\<lparr>ub_country := None\<rparr>) = Inr data"
    if "MovieUpdateSchema_validate today body = Inr data" for data
    using that by (simp add: update_accepted_iff)
  show ?thesis using 1 2 3 patch_movie_keeps_country [of today mid body db] by blast
qed

text \<open>On the small catalog: \<^verbatim>\<open>us\<close> is accepted as \<^verbatim>\<open>US\<close>, \<^verbatim>\<open>usa1\<close> is rejected.\<close>

lemma upper_samples: "upper ''us'' = ''US''" "upper ''usa1'' = ''USA1''"
  by code_simp+

theorem update_country_checked_and_dropped_witness:
  "validate_country (country_body ''us'') = Inr (country_body ''US'') \<and>
   patch_movie 0 2 (country_body ''usa1'') sample_db = (Inl ValidationError, sample_db) \<and>
   map m_country (db_movies (snd (patch_movie 0 2 (country_body ''us'') sample_db))) =
     map m_country (db_movies sample_db) \<and>
   db_countries (snd (patch_movie 0 2 (country_body ''us'') sample_db)) = db_countries sample_db"
proof -
  have c: "ub_country (country_body s) = Some (JStr s)" for s
    by (simp add: country_body_def)
  have m: "fullmatch_country ''US''" "\<not> fullmatch_country ''USA1''"
    by (simp_all add: fullmatch_country_def is_upper_letter_def)
  have u: "country_body ''us''\<lparr>ub_country := Some (JStr ''US'')\<rparr> = country_body ''US''"
    by (simp add: country_body_def)
  from update_country_checked_and_dropped [OF c [of "''us''"], of 0 2 sample_db]
    update_country_checked_and_dropped [OF c [of "''usa1''"], of 0 2 sample_db]
  show ?thesis unfolding upper_samples using m u by simp
qed

text \<open>
  Claim C9 as stated, for every payload that contains the key, fails where the key holds
  \<^verbatim>\<open>null\<close>: the value is not two or three uppercase letters, and the guard
  \<^verbatim>\<open>country is not None\<close> lets the request through.
\<close>

theorem update_country_null_unchecked:
  "ub_country (empty_body\<lparr>ub_country := Some JNull\<rparr>) = Some JNull \<and>
   validate_country (empty_body\<lparr>ub_country := Some JNull\<rparr>) =
     Inr (empty_body\<lparr>ub_country := Some JNull\<rparr>) \<and>
   patch_movie 0 2 (empty_body\<lparr>ub_country := Some JNull\<rparr>) sample_db = (Inr updated_detail, sample_db)"
proof -
  let ?data = "\<lparr>u_name = Unset, u_date = Unset, u_score = Unset, u_overview = Unset,
          u_status = Unset, u_budget = Unset, u_revenue = Unset\<rparr> :: unit MovieUpdateSchema"
  let ?m = "sample_movie 2 ''B'' 20"
  have acc: "MovieUpdateSchema_validate 0 (empty_body\<lparr>ub_country := Some JNull\<rparr>) = Inr ?data"
    by (simp add: update_accepted_iff empty_body_def field_ok_def)
  have same: "patched ?data ?m = ?m" by (simp add: patched_def applied_def)
  have "map (\<lambda>x. if x = ?m then patched ?data ?m else x) (db_movies sample_db) = db_movies sample_db"
    unfolding same by (simp add: map_idI)
  then have "patch_movie 0 2 (empty_body\<lparr>ub_country := Some JNull\<rparr>) sample_db =
      (Inr updated_detail, sample_db)"
    using update_movie_applies [OF sample_db_pk sample_movie_2(1), of ?data] acc
    by (simp add: patch_movie_def sample_movie_2(3))
  then show ?thesis by (simp add: validate_country_def empty_body_def)
qed

section \<open>Two defects of the update schema's date\<close>

text \<open>
  Claim C10. A PATCH body that supplies a scalar field as \<^verbatim>\<open>null\<close> is to set that
  attribute of the movie to null. For \<^verbatim>\<open>{"date": null}\<close> the request never reaches
  the handler: validation ends with \<^verbatim>\<open>TypeError\<close> and the state is unchanged. For
  \<^verbatim>\<open>{"score": null}\<close> the handler runs and the score of movie 2 becomes null.
\<close>

theorem update_null_date_raises:
  "MovieUpdateSchema_validate 0 (empty_body\<lparr>ub_date := Supplied None\<rparr>) =
     Inl (Unhandled TypeError) \<and>
   patch_movie 0 2 (empty_body\<lparr>ub_date := Supplied None\<rparr>) sample_db =
     (Inl (Unhandled TypeError), sample_db) \<and>
   fst (patch_movie 0 2 (empty_body\<lparr>ub_score := Supplied None\<rparr>) sample_db) =
     Inr updated_detail \<and>
   map m_score (db_movies (snd (patch_movie 0 2 (empty_body\<lparr>ub_score := Supplied None\<rparr>) sample_db))) =
     [Some 50, None, Some 50]"
proof -
  let ?data = "\<lparr>u_name = Unset, u_date = Unset, u_score = Supplied None, u_overview = Unset,
          u_status = Unset, u_budget = Unset, u_revenue = Unset\<rparr> :: unit MovieUpdateSchema"
  let ?m = "sample_movie 2 ''B'' 20"
  have raises: "MovieUpdateSchema_validate 0 (empty_body\<lparr>ub_date := Supplied None\<rparr>) =
      Inl (Unhandled TypeError)"
    by (rule update_date_null_raises) (simp_all add: empty_body_def)
  have acc: "MovieUpdateSchema_validate 0 (empty_body\<lparr>ub_score := Supplied None\<rparr>) = Inr ?data"
    by (simp add: update_accepted_iff empty_body_def field_ok_def)
  have run: "patch_movie 0 2 (empty_body\<lparr>ub_score := Supplied None\<rparr>) sample_db =
      (Inr updated_detail,
       sample_db\<lparr>db_movies := map (\<lambda>x. if x = ?m then patched ?data ?m else x) (db_movies sample_db)\<rparr>)"
    using update_movie_applies [OF sample_db_pk sample_movie_2(1), of ?data] acc
    by (simp add: patch_movie_def sample_movie_2(3))
  have scores: "map m_score (map (\<lambda>x. if x = ?m then patched ?data ?m else x) (db_movies sample_db)) =
      [Some 50, None, Some 50]"
    by (simp add: sample_db_def sample_movie_def patched_def applied_def)
  show ?thesis unfolding run using scores raises by (simp add: patch_movie_def)
qed

text \<open>
  Claim C5. An update payload is to be checked against the same date rule as a create
  payload. At \<open>today = 0\<close> the date 0 passes the create schema, and the PATCH body
  \<^verbatim>\<open>{"date": 0}\<close> is rejected with a validation error.
\<close>

theorem update_rejects_every_date:
  "MovieCreateSchema_validate 0 (sample_payload\<lparr>cr_date := 0\<rparr>) = Inr (sample_payload\<lparr>cr_date := 0\<rparr>) \<and>
   MovieUpdateSchema_validate 0 (empty_body\<lparr>ub_date := Supplied (Some 0)\<rparr>) = Inl ValidationError \<and>
   patch_movie 0 2 (empty_body\<lparr>ub_date := Supplied (Some 0)\<rparr>) sample_db = (Inl ValidationError, sample_db)"
proof -
  have "MovieUpdateSchema_validate 0 (empty_body\<lparr>ub_date := Supplied (Some 0)\<rparr>) = Inl ValidationError"
    by (rule update_date_rejected_422) (simp_all add: empty_body_def)
  moreover have "MovieCreateSchema_validate 0 (sample_payload\<lparr>cr_date := 0\<rparr>) \<noteq> Inl ValidationError"
    by (simp add: create_validation_iff sample_payload_def fullmatch_country_def is_upper_letter_def)
  then have "MovieCreateSchema_validate 0 (sample_payload\<lparr>cr_date := 0\<rparr>) = Inr (sample_payload\<lparr>cr_date := 0\<rparr>)"
    using create_validation_total [of 0 "sample_payload\<lparr>cr_date := 0\<rparr>"] by blast
  ultimately show ?thesis by (simp add: patch_movie_def)
qed

text \<open>
  In the handler an explicit \<^verbatim>\<open>null\<close> is a value like any other: the attribute
  becomes null, for each of the seven fields.
\<close>

lemma explicit_null_applied:
  "u_name data = Supplied None \<Longrightarrow> m_name (patched data m) = None"
  "u_date data = Supplied None \<Longrightarrow> m_date (patched data m) = None"
  "u_score data = Supplied None \<Longrightarrow> m_score (patched data m) = None"
  "u_overview data = Supplied None \<Longrightarrow> m_overview (patched data m) = None"
  "u_status data = Supplied None \<Longrightarrow> m_status (patched data m) = None"
  "u_budget data = Supplied None \<Longrightarrow> m_budget (patched data m) = None"
  "u_revenue data = Supplied None \<Longrightarrow> m_revenue (patched data m) = None"
  by (simp_all add: patched_def applied_def)

section \<open>Catalog states are kept\<close>

text \<open>
  The hypotheses of the theorems above are invariants: they hold of the empty catalog, and
  a POST or a DELETE request, whatever it ends with, keeps them. A PATCH request keeps the
  primary key (and the lookup tables); it keeps the rows of the data model when it supplies
  no \<^verbatim>\<open>null\<close>, as \<open>patched_row_ok\<close> shows.
\<close>

lemma empty_catalog_ok: "catalog_ok empty_catalog"
  by (simp add: catalog_ok_def empty_catalog_def movies_unique_def lookups_unique_def)

lemma post_movie_keeps_catalog:
  assumes ok: "catalog_ok db"
  shows "catalog_ok (snd (post_movie today p db))"
proof (cases "MovieCreateSchema_validate today p")
  case (Inl e)
  with ok show ?thesis by (simp add: post_movie_def)
next
  case (Inr q)
  then have q: "q = p" and b: "0 \<le> cr_score p" "cr_score p \<le> 100" "0 \<le> cr_budget p" "0 \<le> cr_revenue p"
    using validated_payload [OF Inr] by simp_all
  from ok have pk: "distinct (map m_id (db_movies db))" and uniq: "movies_unique db"
    and look: "lookups_unique db" and rows: "list_all movie_row_ok (db_movies db)"
    by (simp_all add: catalog_ok_def)
  show ?thesis
  proof (cases "\<exists>m \<in> set (db_movies db). m_name m = Some (cr_name p) \<and> m_date m = Some (cr_date p)")
    case True
    then have "create_movie p db = (Inl (Conflict (cr_name p) (cr_date p)), db)"
      using create_movie_conflict [OF uniq] by blast
    with ok Inr q show ?thesis by (simp add: post_movie_def)
  next
    case False
    have none: "scalar_one_or_none (select_movie_by_name_date (cr_name p) (cr_date p) db) = Inr None"
      using uniq False by (rule no_match_none)
    from create_movie_run [OF look none]
    obtain country countries' genres genres' actors actors' languages languages' where
      res: "country_resolved (db_countries db) countries' (cr_country p) country"
         "names_resolved (db_genres db) genres' (cr_genres p) genres"
         "names_resolved (db_actors db) actors' (cr_actors p) actors"
         "names_resolved (db_languages db) languages' (cr_languages p) languages"
      and run: "create_movie p db =
             (MovieDetailSchema_model_validate (new_movie db p country genres actors languages),
              \<lparr>db_movies = db_movies db @ [new_movie db p country genres actors languages],
               db_countries = countries', db_genres = genres', db_actors = actors',
               db_languages = languages'\<rparr>)"
      by blast
    let ?m = "new_movie db p country genres actors languages"
    have id: "m_id ?m = next_id (map m_id (db_movies db))" "m_name ?m = Some (cr_name p)"
      "m_date ?m = Some (cr_date p)" by (simp_all add: new_movie_def)
    have "m_id ?m \<notin> set (map m_id (db_movies db))" unfolding id by (rule next_id_fresh)
    then have pk': "distinct (map m_id (db_movies db @ [?m]))" using pk by simp
    have "(m_name ?m, m_date ?m) \<notin> set (map (\<lambda>m. (m_name m, m_date m)) (db_movies db))"
      unfolding id using False by force
    then have uniq': "distinct (map (\<lambda>m. (m_name m, m_date m)) (db_movies db @ [?m]))"
      using uniq by (simp add: movies_unique_def)
    have row: "movie_row_ok ?m" using b by (simp add: movie_row_ok_def new_movie_def)
    have look': "distinct (map c_code countries')" "distinct (map n_name genres')"
      "distinct (map n_name actors')" "distinct (map n_name languages')"
      using res unfolding country_resolved_def names_resolved_def by blast+
    show ?thesis
      using pk' uniq' row rows look' Inr q
      by (simp add: post_movie_def run catalog_ok_def movies_unique_def lookups_unique_def)
  qed
qed

lemma delete_movie_keeps_catalog:
  assumes ok: "catalog_ok db"
  shows "catalog_ok (snd (delete_movie mid db))"
proof -
  from ok have pk: "distinct (map m_id (db_movies db))" by (simp add: catalog_ok_def)
  have keep: "catalog_ok (db\<lparr>db_movies := filter P (db_movies db)\<rparr>)" for P
    using ok
    by (auto simp: catalog_ok_def movies_unique_def lookups_unique_def distinct_map_filter
        list_all_iff)
  show ?thesis
  proof (cases "find (\<lambda>m. m_id m = mid) (db_movies db)")
    case None
    with ok show ?thesis by (simp add: delete_movie_def select_by_id [OF pk])
  next
    case (Some movie)
    then show ?thesis using keep by (simp add: delete_movie_def select_by_id [OF pk])
  qed
qed

lemma update_movie_keeps_ids:
  "map m_id (db_movies (snd (update_movie mid data db))) = map m_id (db_movies db)"
proof (cases "scalar_one_or_none (select_movie_by_id mid db)")
  case (Inl e)
  then show ?thesis by (simp add: update_movie_def)
next
  case (Inr found)
  show ?thesis
  proof (cases found)
    case None
    with Inr show ?thesis by (simp add: update_movie_def)
  next
    case (Some m)
    with Inr have "scalar_one_or_none (select_movie_by_id mid db) = Inr (Some m)" by simp
    note run = update_movie_found [OF this, of data]
    have "m_id (if x = m then patched data m else x) = m_id x" for x
      by (simp add: patched_relations)
    then have "map m_id (map (\<lambda>x. if x = m then patched data m else x) (db_movies db)) =
        map m_id (db_movies db)"
      by (simp only: map_map o_def map_ident)
    then show ?thesis unfolding run by simp
  qed
qed

lemma patch_movie_keeps_primary_key:
  assumes "distinct (map m_id (db_movies db))"
  shows "distinct (map m_id (db_movies (snd (patch_movie today mid body db))))"
proof (cases "MovieUpdateSchema_validate today body")
  case (Inl e)
  with assms show ?thesis by (simp add: patch_movie_def)
next
  case (Inr data)
  with assms show ?thesis by (simp add: patch_movie_def update_movie_keeps_ids)
qed


end
